theory Spec2Isabelle
  imports Complex_Main "HOL-Library.Word" "HOL-Library.Log_Nat"
begin

section \<open>The C++ scalar types\<close>

text \<open>
  \<^verbatim>\<open>GLuint\<close> and \<^verbatim>\<open>uint32_t\<close> are 32-bit words read unsigned, \<^verbatim>\<open>GLint\<close> and
  \<^verbatim>\<open>GLsizei\<close> 32-bit words read signed (\<open>sint\<close>), \<^verbatim>\<open>size_t\<close> a 64-bit word.

  \<^verbatim>\<open>float\<close> is IEEE 754 binary32. A finite float is modelled by the rational number
  it denotes; every arithmetic operation computes the exact rational result and rounds
  it to the nearest binary32 value, ties to even (24 significant bits, smallest unit
  \<open>2\<^sup>-\<^sup>1\<^sup>4\<^sup>9\<close>, overflow to infinity above \<open>(2\<^sup>2\<^sup>4 - 1) * 2\<^sup>1\<^sup>0\<^sup>4\<close>). The model
  has one zero: the sign of a zero is not represented.
\<close>

type_synonym GLuint = "32 word"
type_synonym GLint = "32 word"
type_synonym GLsizei = "32 word"
type_synonym uint32_t = "32 word"
type_synonym size_t = "64 word"

datatype f32 = Finite rat | PInf | NInf | NaN

definition pow2 :: "int \<Rightarrow> rat" where
  "pow2 k = (if 0 \<le> k then 2 ^ nat k else 1 / 2 ^ nat (- k))"

text \<open>\<open>ilog2 x\<close> is the binary exponent \<open>\<lfloor>log\<^sub>2 x\<rfloor>\<close> of a positive rational.\<close>

definition ilog2 :: "rat \<Rightarrow> int" where
  "ilog2 x = (if 1 \<le> x then bitlen \<lfloor>x\<rfloor> - 1 else - bitlen (\<lceil>1 / x\<rceil> - 1))"

definition round_even :: "rat \<Rightarrow> int" where
  "round_even q = (let f = \<lfloor>q\<rfloor>; d = q - of_int f in
     if d < 1 / 2 then f else if 1 / 2 < d then f + 1 else if even f then f else f + 1)"

definition max_f32 :: rat where
  "max_f32 = (2 ^ 24 - 1) * 2 ^ 104"

definition round_f32 :: "rat \<Rightarrow> f32" where
  "round_f32 q = (if q = 0 then Finite 0 else
     let u = max (ilog2 \<bar>q\<bar> - 23) (- 149);
         r = of_int (round_even (q / pow2 u)) * pow2 u
     in if max_f32 < \<bar>r\<bar> then (if 0 < q then PInf else NInf) else Finite r)"

text \<open>A value of the model is a float when rounding leaves it as it is.\<close>

fun is_f32 :: "f32 \<Rightarrow> bool" where
  "is_f32 (Finite a) = (round_f32 a = Finite a)"
| "is_f32 _ = True"

fun fneg :: "f32 \<Rightarrow> f32" where
  "fneg (Finite a) = Finite (- a)"
| "fneg PInf = NInf"
| "fneg NInf = PInf"
| "fneg NaN = NaN"

fun fadd :: "f32 \<Rightarrow> f32 \<Rightarrow> f32" where
  "fadd (Finite a) (Finite b) = round_f32 (a + b)"
| "fadd NaN _ = NaN"
| "fadd _ NaN = NaN"
| "fadd PInf NInf = NaN"
| "fadd NInf PInf = NaN"
| "fadd PInf _ = PInf"
| "fadd NInf _ = NInf"
| "fadd _ PInf = PInf"
| "fadd _ NInf = NInf"

definition fsub :: "f32 \<Rightarrow> f32 \<Rightarrow> f32" where
  "fsub a b = fadd a (fneg b)"

fun fmul :: "f32 \<Rightarrow> f32 \<Rightarrow> f32" where
  "fmul (Finite a) (Finite b) = round_f32 (a * b)"
| "fmul NaN _ = NaN"
| "fmul _ NaN = NaN"
| "fmul (Finite a) PInf = (if a = 0 then NaN else if 0 < a then PInf else NInf)"
| "fmul (Finite a) NInf = (if a = 0 then NaN else if 0 < a then NInf else PInf)"
| "fmul PInf (Finite b) = (if b = 0 then NaN else if 0 < b then PInf else NInf)"
| "fmul NInf (Finite b) = (if b = 0 then NaN else if 0 < b then NInf else PInf)"
| "fmul PInf PInf = PInf"
| "fmul NInf NInf = PInf"
| "fmul PInf NInf = NInf"
| "fmul NInf PInf = NInf"

fun fdiv :: "f32 \<Rightarrow> f32 \<Rightarrow> f32" where
  "fdiv (Finite a) (Finite b) =
     (if b = 0 then (if a = 0 then NaN else if 0 < a then PInf else NInf)
      else round_f32 (a / b))"
| "fdiv NaN _ = NaN"
| "fdiv _ NaN = NaN"
| "fdiv (Finite a) _ = Finite 0"
| "fdiv PInf (Finite b) = (if 0 \<le> b then PInf else NInf)"
| "fdiv NInf (Finite b) = (if 0 \<le> b then NInf else PInf)"
| "fdiv _ _ = NaN"

text \<open>\<^verbatim>\<open>static_cast<float>(int)\<close>.\<close>

definition f32_of_int :: "int \<Rightarrow> f32" where
  "f32_of_int n = round_f32 (of_int n)"

text \<open>\<^verbatim>\<open>std::round(float)\<close>: to the nearest integer, halfway cases away from zero.\<close>

fun fround :: "f32 \<Rightarrow> f32" where
  "fround (Finite a) = Finite (of_int (if 0 \<le> a then \<lfloor>a + 1 / 2\<rfloor> else - \<lfloor>- a + 1 / 2\<rfloor>))"
| "fround x = x"

text \<open>
  The conversion \<^verbatim>\<open>float\<close> to \<^verbatim>\<open>uint32_t\<close> truncates toward zero; when the truncated
  value is not a \<^verbatim>\<open>uint32_t\<close> the behaviour is undefined (\<open>None\<close>).
\<close>

fun to_uint32 :: "f32 \<Rightarrow> uint32_t option" where
  "to_uint32 (Finite a) =
     (let t = (if 0 \<le> a then \<lfloor>a\<rfloor> else \<lceil>a\<rceil>)
      in if 0 \<le> t \<and> t < 2 ^ 32 then Some (word_of_int t) else None)"
| "to_uint32 _ = None"

section \<open>GLM vectors and matrices\<close>

text \<open>
  GLM is a third-party library. Its vectors and column-major matrices, and the functions
  the renderer calls, are modelled after GLM's scalar implementation over \<^verbatim>\<open>float\<close>: a
  column of a product is the sum, accumulated from the left, of the columns of the first
  matrix scaled by the entries of the column of the second.
\<close>

datatype vec2 = vec2 (vec2_x: f32) (vec2_y: f32)
datatype vec3 = vec3 (vec3_x: f32) (vec3_y: f32) (vec3_z: f32)
datatype vec4 = vec4 (vec4_x: f32) (vec4_y: f32) (vec4_z: f32) (vec4_w: f32)
datatype mat4 = mat4 (col0: vec4) (col1: vec4) (col2: vec4) (col3: vec4)

fun vec4_times :: "vec4 \<Rightarrow> f32 \<Rightarrow> vec4" where
  "vec4_times (vec4 a b c d) s = vec4 (fmul a s) (fmul b s) (fmul c s) (fmul d s)"

fun vec4_plus :: "vec4 \<Rightarrow> vec4 \<Rightarrow> vec4" where
  "vec4_plus (vec4 a b c d) (vec4 a' b' c' d') =
     vec4 (fadd a a') (fadd b b') (fadd c c') (fadd d d')"

text \<open>\<^verbatim>\<open>glm::mat4(s)\<close>: the diagonal matrix.\<close>

definition glm_mat4 :: "f32 \<Rightarrow> mat4" where
  "glm_mat4 s = mat4 (vec4 s (Finite 0) (Finite 0) (Finite 0))
                     (vec4 (Finite 0) s (Finite 0) (Finite 0))
                     (vec4 (Finite 0) (Finite 0) s (Finite 0))
                     (vec4 (Finite 0) (Finite 0) (Finite 0) s)"

fun glm_translate :: "mat4 \<Rightarrow> vec3 \<Rightarrow> mat4" where
  "glm_translate (mat4 c0 c1 c2 c3) (vec3 vx vy vz) =
     mat4 c0 c1 c2
       (vec4_plus (vec4_plus (vec4_plus (vec4_times c0 vx) (vec4_times c1 vy))
                    (vec4_times c2 vz)) c3)"

fun glm_scale :: "mat4 \<Rightarrow> vec3 \<Rightarrow> mat4" where
  "glm_scale (mat4 c0 c1 c2 c3) (vec3 vx vy vz) =
     mat4 (vec4_times c0 vx) (vec4_times c1 vy) (vec4_times c2 vz) c3"

fun mat4_vec4 :: "mat4 \<Rightarrow> vec4 \<Rightarrow> vec4" where
  "mat4_vec4 (mat4 a0 a1 a2 a3) (vec4 bx by bz bw) =
     vec4_plus (vec4_plus (vec4_plus (vec4_times a0 bx) (vec4_times a1 by))
                  (vec4_times a2 bz)) (vec4_times a3 bw)"

text \<open>\<^verbatim>\<open>operator*(mat4, mat4)\<close>.\<close>

fun mat4_times :: "mat4 \<Rightarrow> mat4 \<Rightarrow> mat4" where
  "mat4_times m1 (mat4 b0 b1 b2 b3) =
     mat4 (mat4_vec4 m1 b0) (mat4_vec4 m1 b1) (mat4_vec4 m1 b2) (mat4_vec4 m1 b3)"

text \<open>\<^verbatim>\<open>glm::ortho(left, right, bottom, top)\<close>.\<close>

definition glm_ortho :: "f32 \<Rightarrow> f32 \<Rightarrow> f32 \<Rightarrow> f32 \<Rightarrow> mat4" where
  "glm_ortho l r b t =
     mat4 (vec4 (fdiv (Finite 2) (fsub r l)) (Finite 0) (Finite 0) (Finite 0))
          (vec4 (Finite 0) (fdiv (Finite 2) (fsub t b)) (Finite 0) (Finite 0))
          (vec4 (Finite 0) (Finite 0) (fneg (Finite 1)) (Finite 0))
          (vec4 (fdiv (fneg (fadd r l)) (fsub r l))
                (fdiv (fneg (fadd t b)) (fsub t b)) (Finite 0) (Finite 1))"

section \<open>Calls into OpenGL ES, GLFW and GLM\<close>

text \<open>
  The renderer acts on the world only through calls into its libraries. Every operation
  of the model returns the list of library calls it makes, in order. What the GL driver
  answers (object names, compile and link status, info logs, locations) is a parameter,
  \<open>gl_driver\<close>.
\<close>

datatype exn = runtime_error string

datatype shader_type = GL_VERTEX_SHADER | GL_FRAGMENT_SHADER
datatype pname = GL_COMPILE_STATUS | GL_LINK_STATUS | GL_INFO_LOG_LENGTH
datatype buffer_target = GL_ARRAY_BUFFER | GL_ELEMENT_ARRAY_BUFFER | GL_PIXEL_UNPACK_BUFFER
datatype texture_unit = GL_TEXTURE0 | GL_TEXTURE1 | GL_TEXTURE2
datatype tex_format = GL_RGBA | GL_RGB | GL_RED

datatype lib_call =
    glCreateShader shader_type GLuint
  | glShaderSource GLuint string
  | glCompileShader GLuint
  | glGetShaderiv GLuint pname
  | glGetShaderInfoLog GLuint
  | glDeleteShader GLuint
  | glCreateProgram GLuint
  | glAttachShader GLuint GLuint
  | glLinkProgram GLuint
  | glDetachShader GLuint GLuint
  | glGetProgramiv GLuint pname
  | glGetProgramInfoLog GLuint
  | glDeleteProgram GLuint
  | glUseProgram GLuint
  | glGetUniformLocation GLuint string
  | glGetAttribLocation GLuint string
  | glUniform1i GLint int
  | glUniformMatrix4fv GLint mat4
  | glActiveTexture texture_unit
  | glBindTexture GLuint
  | glBindVertexArray GLuint
  | glBindBuffer buffer_target GLuint
  | glDeleteBuffers GLuint
  | glDeleteTextures GLuint
  | glDeleteVertexArrays GLuint
  | glDrawElements GLsizei
  | glViewport int int int int
  | glClear
  | glfwSwapBuffers
  | glfwMakeContextCurrent bool
  | call_glm_translate mat4 vec3
  | call_glm_scale mat4 vec3
  | call_mat4_times mat4 mat4

record gl_driver =
  createShader :: "shader_type \<Rightarrow> GLuint"
  compileStatus :: "GLuint \<Rightarrow> GLint"
  shaderInfoLogLength :: "GLuint \<Rightarrow> GLint"
  shaderInfoLog :: "GLuint \<Rightarrow> string"
  createProgram :: GLuint
  linkStatus :: "GLuint \<Rightarrow> GLint"
  programInfoLogLength :: "GLuint \<Rightarrow> GLint"
  programInfoLog :: "GLuint \<Rightarrow> string"
  uniformLocation :: "GLuint \<Rightarrow> string \<Rightarrow> GLint"
  attribLocation :: "GLuint \<Rightarrow> string \<Rightarrow> GLint"

text \<open>
  The shader and program objects alive after a list of calls: \<^verbatim>\<open>glCreateShader\<close> and
  \<^verbatim>\<open>glCreateProgram\<close> make one (the name 0 means none was made), \<^verbatim>\<open>glDeleteShader\<close> and
  \<^verbatim>\<open>glDeleteProgram\<close> free it.
\<close>

fun shader_effect :: "GLuint set \<Rightarrow> lib_call \<Rightarrow> GLuint set" where
  "shader_effect S (glCreateShader ty s) = (if s = 0 then S else insert s S)"
| "shader_effect S (glDeleteShader s) = S - {s}"
| "shader_effect S _ = S"

definition live_shaders :: "lib_call list \<Rightarrow> GLuint set" where
  "live_shaders calls = foldl shader_effect {} calls"

fun program_effect :: "GLuint set \<Rightarrow> lib_call \<Rightarrow> GLuint set" where
  "program_effect S (glCreateProgram p) = (if p = 0 then S else insert p S)"
| "program_effect S (glDeleteProgram p) = S - {p}"
| "program_effect S _ = S"

definition live_programs :: "lib_call list \<Rightarrow> GLuint set" where
  "live_programs calls = foldl program_effect {} calls"

section \<open>renderer.h: LoadShader and ShaderProgram\<close>

text \<open>
  A class is a record of its data members. Isabelle's record syntax does not take a name
  that ends in an underscore, so a member \<^verbatim>\<open>name_\<close> of the source is the field \<open>name\<close>.
  A member function takes the object first and returns the object as it is after the
  call wherever it changes it.
\<close>

definition LoadShader :: "gl_driver \<Rightarrow> shader_type \<Rightarrow> string \<Rightarrow> (exn + GLuint) \<times> lib_call list" where
  "LoadShader gl ty shaderSrc =
     (let shader = createShader gl ty in
      if shader = 0 then (Inl (runtime_error ''failed to allocate shader''), [glCreateShader ty shader])
      else
        let calls = [glCreateShader ty shader, glShaderSource shader shaderSrc,
                     glCompileShader shader, glGetShaderiv shader GL_COMPILE_STATUS]
        in if compileStatus gl shader = 0 then
             (if 1 <s shaderInfoLogLength gl shader then
                (Inl (runtime_error (''Error compiling shader ''
                        @ (if ty = GL_VERTEX_SHADER then ''Vertex Shader'' else ''Fragment Shader'')
                        @ [CHR 0x0A] @ '':'' @ shaderInfoLog gl shader)),
                 calls @ [glGetShaderiv shader GL_INFO_LOG_LENGTH, glGetShaderInfoLog shader,
                          glDeleteShader shader])
              else
                (Inl (runtime_error ''Error compiling shader''),
                 calls @ [glGetShaderiv shader GL_INFO_LOG_LENGTH, glDeleteShader shader]))
           else (Inr shader, calls))"

record ShaderProgram =
  shaderProgram :: GLuint
  m_UniformLocationCache :: "string \<rightharpoonup> GLint"
  m_AttributeLocationCache :: "string \<rightharpoonup> GLint"

definition ShaderProgram_ctor ::
  "gl_driver \<Rightarrow> string \<Rightarrow> string \<Rightarrow> (exn + ShaderProgram) \<times> lib_call list" where
  "ShaderProgram_ctor gl vertex_shader fragment_shader =
     (case LoadShader gl GL_VERTEX_SHADER vertex_shader of
        (Inl e, c1) \<Rightarrow> (Inl e, c1)
      | (Inr vertexShader, c1) \<Rightarrow>
          (case LoadShader gl GL_FRAGMENT_SHADER fragment_shader of
             (Inl e, c2) \<Rightarrow> (Inl e, c1 @ c2)
           | (Inr fragmentShader, c2) \<Rightarrow>
               (let p = createProgram gl in
                if p = 0 then
                  (Inl (runtime_error ''Failed to allocate shader program''),
                   c1 @ c2 @ [glCreateProgram p])
                else
                  let c3 = [glCreateProgram p, glAttachShader p vertexShader,
                            glAttachShader p fragmentShader, glLinkProgram p,
                            glDetachShader p vertexShader, glDetachShader p fragmentShader,
                            glDeleteShader vertexShader, glDeleteShader fragmentShader,
                            glGetProgramiv p GL_LINK_STATUS]
                  in if linkStatus gl p = 0 then
                       (if 1 <s programInfoLogLength gl p then
                          (Inl (runtime_error (''Error linking shader program:'' @ [CHR 0x0A]
                                  @ '':'' @ programInfoLog gl p)),
                           c1 @ c2 @ c3 @ [glGetProgramiv p GL_INFO_LOG_LENGTH,
                                           glGetProgramInfoLog p, glDeleteProgram p])
                        else
                          (Inl (runtime_error ''Error linking shader program''),
                           c1 @ c2 @ c3 @ [glGetProgramiv p GL_INFO_LOG_LENGTH, glDeleteProgram p]))
                     else
                       (Inr \<lparr>shaderProgram = p, m_UniformLocationCache = Map.empty,
                             m_AttributeLocationCache = Map.empty\<rparr>,
                        c1 @ c2 @ c3))))"

text \<open>The move constructor: \<^verbatim>\<open>std::exchange\<close> leaves 0 in the source; the caches of the
  new object are default-constructed. The result is the new object and the source.\<close>

definition ShaderProgram_move :: "ShaderProgram \<Rightarrow> ShaderProgram \<times> ShaderProgram" where
  "ShaderProgram_move other =
     (\<lparr>shaderProgram = shaderProgram other, m_UniformLocationCache = Map.empty,
       m_AttributeLocationCache = Map.empty\<rparr>,
      other\<lparr>shaderProgram := 0\<rparr>)"

definition ShaderProgram_dtor :: "ShaderProgram \<Rightarrow> lib_call list" where
  "ShaderProgram_dtor sp = [glDeleteProgram (shaderProgram sp)]"

definition use :: "ShaderProgram \<Rightarrow> lib_call list" where
  "use sp = [glUseProgram (shaderProgram sp)]"

definition get_attrib_location ::
  "gl_driver \<Rightarrow> ShaderProgram \<Rightarrow> string \<Rightarrow> GLint \<times> ShaderProgram \<times> lib_call list" where
  "get_attrib_location gl sp name =
     (case m_AttributeLocationCache sp name of
        Some location \<Rightarrow> (location, sp, [])
      | None \<Rightarrow>
          (let location = attribLocation gl (shaderProgram sp) name
           in (location,
               sp\<lparr>m_AttributeLocationCache := (m_AttributeLocationCache sp)(name \<mapsto> location)\<rparr>,
               [glGetAttribLocation (shaderProgram sp) name])))"

definition get_uniform_location ::
  "gl_driver \<Rightarrow> ShaderProgram \<Rightarrow> string \<Rightarrow> GLint \<times> ShaderProgram \<times> lib_call list" where
  "get_uniform_location gl sp name =
     (case m_UniformLocationCache sp name of
        Some location \<Rightarrow> (location, sp, [])
      | None \<Rightarrow>
          (let location = uniformLocation gl (shaderProgram sp) name
           in (location,
               sp\<lparr>m_UniformLocationCache := (m_UniformLocationCache sp)(name \<mapsto> location)\<rparr>,
               [glGetUniformLocation (shaderProgram sp) name])))"

definition set_int ::
  "gl_driver \<Rightarrow> ShaderProgram \<Rightarrow> string \<Rightarrow> int \<Rightarrow> ShaderProgram \<times> lib_call list" where
  "set_int gl sp name v =
     (case get_uniform_location gl sp name of
        (location, sp', calls) \<Rightarrow> (sp', calls @ [glUniform1i location v]))"

definition set_mat4 ::
  "gl_driver \<Rightarrow> ShaderProgram \<Rightarrow> string \<Rightarrow> mat4 \<Rightarrow> ShaderProgram \<times> lib_call list" where
  "set_mat4 gl sp name m =
     (case get_uniform_location gl sp name of
        (location, sp', calls) \<Rightarrow> (sp', calls @ [glUniformMatrix4fv location m]))"

text \<open>
  A sequence of location queries on one program: each query names the driver that would
  answer it. The result is the locations returned, the program afterwards and the calls.
\<close>

fun uniform_lookups ::
  "ShaderProgram \<Rightarrow> (gl_driver \<times> string) list \<Rightarrow> GLint list \<times> ShaderProgram \<times> lib_call list" where
  "uniform_lookups sp [] = ([], sp, [])"
| "uniform_lookups sp ((gl, name) # qs) =
     (case get_uniform_location gl sp name of
        (location, sp', calls) \<Rightarrow>
          (case uniform_lookups sp' qs of
             (ls, sp'', rest) \<Rightarrow> (location # ls, sp'', calls @ rest)))"

fun attrib_lookups ::
  "ShaderProgram \<Rightarrow> (gl_driver \<times> string) list \<Rightarrow> GLint list \<times> ShaderProgram \<times> lib_call list" where
  "attrib_lookups sp [] = ([], sp, [])"
| "attrib_lookups sp ((gl, name) # qs) =
     (case get_attrib_location gl sp name of
        (location, sp', calls) \<Rightarrow>
          (case attrib_lookups sp' qs of
             (ls, sp'', rest) \<Rightarrow> (location # ls, sp'', calls @ rest)))"

section \<open>renderer.h: buffers, vertex array, texture\<close>

text \<open>
  A move constructor returns the new object and the moved-from source. A member that the
  move constructor does not initialise holds an indeterminate value in the new object;
  that value is a parameter of the model (\<open>indet_\<dots>\<close>). A null \<^verbatim>\<open>shared_ptr\<close> or
  \<^verbatim>\<open>unique_ptr\<close> is \<open>None\<close>.
\<close>

record VertexBuffer =
  vbo :: GLuint

definition VertexBuffer_move :: "VertexBuffer \<Rightarrow> VertexBuffer \<times> VertexBuffer" where
  "VertexBuffer_move other = (\<lparr>vbo = vbo other\<rparr>, other\<lparr>vbo := 0\<rparr>)"

definition VertexBuffer_dtor :: "VertexBuffer \<Rightarrow> lib_call list" where
  "VertexBuffer_dtor b = [glDeleteBuffers (vbo b)]"

record IndexBuffer =
  ibo :: GLuint
  count :: uint32_t

definition IndexBuffer_move :: "IndexBuffer \<Rightarrow> uint32_t \<Rightarrow> IndexBuffer \<times> IndexBuffer" where
  "IndexBuffer_move other indet_count =
     (\<lparr>ibo = ibo other, count = indet_count\<rparr>, other\<lparr>ibo := 0\<rparr>)"

definition IndexBuffer_dtor :: "IndexBuffer \<Rightarrow> lib_call list" where
  "IndexBuffer_dtor b = [glDeleteBuffers (ibo b)]"

definition get_count :: "IndexBuffer \<Rightarrow> uint32_t" where
  "get_count b = count b"

record VertexArray =
  va_vbo :: "VertexBuffer option"
  vao :: GLuint

definition VertexArray_move :: "VertexArray \<Rightarrow> VertexArray \<times> VertexArray" where
  "VertexArray_move other = (\<lparr>va_vbo = None, vao = vao other\<rparr>, other\<lparr>vao := 0\<rparr>)"

definition VertexArray_dtor :: "VertexArray \<Rightarrow> lib_call list" where
  "VertexArray_dtor a = [glDeleteVertexArrays (vao a)]"

record Texture =
  width :: GLsizei
  height :: GLsizei
  textureId :: GLuint
  pbo :: GLuint
  buffer_size :: size_t

definition Texture_move ::
  "Texture \<Rightarrow> GLsizei \<Rightarrow> GLsizei \<Rightarrow> size_t \<Rightarrow> Texture \<times> Texture" where
  "Texture_move other indet_width indet_height indet_buffer_size =
     (\<lparr>width = indet_width, height = indet_height, textureId = textureId other,
       pbo = pbo other, buffer_size = indet_buffer_size\<rparr>,
      other\<lparr>textureId := 0, pbo := 0\<rparr>)"

definition Texture_dtor :: "Texture \<Rightarrow> lib_call list" where
  "Texture_dtor t = [glDeleteTextures (textureId t), glDeleteBuffers (pbo t)]"

definition Texture_bind :: "Texture \<Rightarrow> lib_call list" where
  "Texture_bind t = [glBindTexture (textureId t)]"

text \<open>
  The GL object name, if any, that a call of a destructor frees: deleting the name 0 is
  silently ignored by OpenGL.
\<close>

fun released :: "lib_call \<Rightarrow> GLuint option" where
  "released (glDeleteProgram n) = (if n = 0 then None else Some n)"
| "released (glDeleteShader n) = (if n = 0 then None else Some n)"
| "released (glDeleteBuffers n) = (if n = 0 then None else Some n)"
| "released (glDeleteTextures n) = (if n = 0 then None else Some n)"
| "released (glDeleteVertexArrays n) = (if n = 0 then None else Some n)"
| "released _ = None"

section \<open>renderer.h: Mesh and Renderable\<close>

record Mesh =
  vertex_array :: "VertexArray option"
  vertex_buffer :: "VertexBuffer option"
  index_buffer :: "IndexBuffer option"

text \<open>\<^verbatim>\<open>Mesh::draw\<close>; \<open>None\<close> is the dereference of a null pointer.\<close>

definition Mesh_draw :: "Mesh \<Rightarrow> lib_call list option" where
  "Mesh_draw m =
     (case vertex_array m of
        None \<Rightarrow> None
      | Some va \<Rightarrow>
          (case index_buffer m of
             None \<Rightarrow> None
           | Some ib \<Rightarrow>
               Some [glBindVertexArray (vao va), glBindBuffer GL_ELEMENT_ARRAY_BUFFER (ibo ib),
                     glDrawElements (get_count ib)]))"

text \<open>
  \<^verbatim>\<open>Renderable<format>\<close>: the template argument is the field \<open>format\<close>. The one-texture
  constructor requires \<^verbatim>\<open>format != GL_RED\<close>, the three-texture constructor
  \<^verbatim>\<open>format == GL_RED\<close>; where the constraint fails there is no constructor (\<open>None\<close>).
  Neither constructor initialises \<^verbatim>\<open>position_\<close> and \<^verbatim>\<open>scale_\<close>.
\<close>

record Renderable =
  format :: tex_format
  mesh :: "Mesh option"
  texture_y :: "Texture option"
  texture_u :: "Texture option"
  texture_v :: "Texture option"
  position :: vec3
  scale :: vec2
  transform :: mat4
  dirty :: bool

definition Renderable_ctor ::
  "tex_format \<Rightarrow> Mesh option \<Rightarrow> Texture option \<Rightarrow> vec3 \<Rightarrow> vec2 \<Rightarrow> Renderable option" where
  "Renderable_ctor fmt m tex indet_position indet_scale =
     (if fmt \<noteq> GL_RED then
        Some \<lparr>format = fmt, mesh = m, texture_y = tex, texture_u = None, texture_v = None,
              position = indet_position, scale = indet_scale,
              transform = glm_mat4 (Finite 1), dirty = False\<rparr>
      else None)"

definition Renderable_ctor_yuv ::
  "tex_format \<Rightarrow> Mesh option \<Rightarrow> Texture option \<Rightarrow> Texture option \<Rightarrow> Texture option
     \<Rightarrow> vec3 \<Rightarrow> vec2 \<Rightarrow> Renderable option" where
  "Renderable_ctor_yuv fmt m tex_y tex_u tex_v indet_position indet_scale =
     (if fmt = GL_RED then
        Some \<lparr>format = fmt, mesh = m, texture_y = tex_y, texture_u = tex_u, texture_v = tex_v,
              position = indet_position, scale = indet_scale,
              transform = glm_mat4 (Finite 1), dirty = False\<rparr>
      else None)"

definition set_position_Center :: "Renderable \<Rightarrow> vec3 \<Rightarrow> Renderable" where
  "set_position_Center r p = r\<lparr>position := p, dirty := True\<rparr>"

definition set_position_TopLeft :: "Renderable \<Rightarrow> vec3 \<Rightarrow> Renderable" where
  "set_position_TopLeft r p =
     r\<lparr>position := vec3 (fadd (vec3_x p) (fdiv (vec2_x (scale r)) (Finite 2)))
                         (fadd (vec3_y p) (fdiv (vec2_y (scale r)) (Finite 2)))
                         (vec3_z p),
       dirty := True\<rparr>"

definition set_scale :: "Renderable \<Rightarrow> vec2 \<Rightarrow> Renderable" where
  "set_scale r s = r\<lparr>scale := s, dirty := True\<rparr>"

text \<open>The first statement of both \<^verbatim>\<open>draw\<close> overloads: \<^verbatim>\<open>if (dirty_) { ... }\<close>.\<close>

definition update_transform :: "Renderable \<Rightarrow> Renderable \<times> lib_call list" where
  "update_transform r =
     (if dirty r then
        (let transMatrix = glm_translate (glm_mat4 (Finite 1)) (position r);
             scaleMatrix = glm_scale (glm_mat4 (Finite 1))
                             (vec3 (vec2_x (scale r)) (vec2_y (scale r)) (Finite 0))
         in (r\<lparr>transform := mat4_times transMatrix scaleMatrix\<rparr>,
             [call_glm_translate (glm_mat4 (Finite 1)) (position r),
              call_glm_scale (glm_mat4 (Finite 1))
                (vec3 (vec2_x (scale r)) (vec2_y (scale r)) (Finite 0)),
              call_mat4_times transMatrix scaleMatrix]))
      else (r, []))"

text \<open>The texture binding of \<^verbatim>\<open>draw\<close>: one plane, or three for \<^verbatim>\<open>GL_RED\<close>.\<close>

definition bind_planes :: "Renderable \<Rightarrow> lib_call list option" where
  "bind_planes r =
     (if format r \<noteq> GL_RED then
        (case texture_y r of
           None \<Rightarrow> None
         | Some ty \<Rightarrow> Some ([glActiveTexture GL_TEXTURE0] @ Texture_bind ty))
      else
        (case texture_y r of
           None \<Rightarrow> None
         | Some ty \<Rightarrow>
            (case texture_u r of
               None \<Rightarrow> None
             | Some tu \<Rightarrow>
                (case texture_v r of
                   None \<Rightarrow> None
                 | Some tv \<Rightarrow>
                     Some ([glActiveTexture GL_TEXTURE0] @ Texture_bind ty
                           @ [glActiveTexture GL_TEXTURE1] @ Texture_bind tu
                           @ [glActiveTexture GL_TEXTURE2] @ Texture_bind tv)))))"

text \<open>\<^verbatim>\<open>Renderable::draw\<close>, both overloads; \<open>None\<close> is the dereference of a null pointer.\<close>

definition draw ::
  "gl_driver \<Rightarrow> ShaderProgram \<Rightarrow> Renderable
     \<Rightarrow> (ShaderProgram \<times> Renderable \<times> lib_call list) option" where
  "draw gl shader r =
     (case update_transform r of
        (r', c0) \<Rightarrow>
          (case bind_planes r' of
             None \<Rightarrow> None
           | Some c1 \<Rightarrow>
               (case set_int gl shader ''u_texture'' 0 of
                  (shader1, c2) \<Rightarrow>
                    (case set_mat4 gl shader1 ''u_Transform'' (transform r') of
                       (shader2, c3) \<Rightarrow>
                         (case mesh r' of
                            None \<Rightarrow> None
                          | Some m \<Rightarrow>
                              (case Mesh_draw m of
                                 None \<Rightarrow> None
                               | Some c4 \<Rightarrow> Some (shader2, r', c0 @ c1 @ c2 @ c3 @ c4)))))))"

text \<open>A renderable can be drawn when \<^verbatim>\<open>draw\<close> dereferences no null pointer.\<close>

definition drawable :: "Renderable \<Rightarrow> bool" where
  "drawable r =
     (bind_planes r \<noteq> None \<and> (case mesh r of None \<Rightarrow> False | Some m \<Rightarrow> Mesh_draw m \<noteq> None))"

text \<open>A client of a renderable sets its position or scale and draws it, in any order.\<close>

datatype renderable_op =
  SetPositionCenter vec3 | SetPositionTopLeft vec3 | SetScale vec2 | Draw

fun is_set :: "renderable_op \<Rightarrow> bool" where
  "is_set Draw = False"
| "is_set _ = True"

fun renderable_step ::
  "gl_driver \<Rightarrow> ShaderProgram \<times> Renderable \<Rightarrow> renderable_op
     \<Rightarrow> (ShaderProgram \<times> Renderable) option" where
  "renderable_step gl (shader, r) (SetPositionCenter p) = Some (shader, set_position_Center r p)"
| "renderable_step gl (shader, r) (SetPositionTopLeft p) = Some (shader, set_position_TopLeft r p)"
| "renderable_step gl (shader, r) (SetScale s) = Some (shader, set_scale r s)"
| "renderable_step gl (shader, r) Draw =
     (case draw gl shader r of
        None \<Rightarrow> None
      | Some (shader', r', calls) \<Rightarrow> Some (shader', r'))"

fun renderable_run ::
  "gl_driver \<Rightarrow> ShaderProgram \<times> Renderable \<Rightarrow> renderable_op list
     \<Rightarrow> (ShaderProgram \<times> Renderable) option" where
  "renderable_run gl st [] = Some st"
| "renderable_run gl st (x # xs) =
     (case renderable_step gl st x of
        None \<Rightarrow> None
      | Some st' \<Rightarrow> renderable_run gl st' xs)"

text \<open>The matrices that a list of calls uploads with \<^verbatim>\<open>glUniformMatrix4fv\<close>.\<close>

fun uploaded_matrix :: "lib_call \<Rightarrow> mat4 option" where
  "uploaded_matrix (glUniformMatrix4fv l m) = Some m"
| "uploaded_matrix _ = None"

definition uploaded_matrices :: "lib_call list \<Rightarrow> mat4 list" where
  "uploaded_matrices calls = List.map_filter uploaded_matrix calls"

text \<open>Whether a list of calls computes a transform matrix.\<close>

fun is_recompute :: "lib_call \<Rightarrow> bool" where
  "is_recompute (call_mat4_times a b) = True"
| "is_recompute _ = False"

definition recomputes :: "lib_call list \<Rightarrow> bool" where
  "recomputes calls = list_ex is_recompute calls"

text \<open>The textures a renderable holds: its non-null texture pointers.\<close>

definition textures_held :: "Renderable \<Rightarrow> Texture list" where
  "textures_held r = List.map_filter id [texture_y r, texture_u r, texture_v r]"

text \<open>
  The texture bound to each texture unit: \<^verbatim>\<open>glActiveTexture\<close> selects the unit,
  \<^verbatim>\<open>glBindTexture\<close> binds to the selected unit. A texture state is the selected unit and
  the binding of every unit. \<open>units_at_draw st calls\<close> is the binding when the first
  \<^verbatim>\<open>glDrawElements\<close> of \<open>calls\<close> is issued, the calls starting in the texture state \<open>st\<close>
  that earlier calls have left behind.
\<close>

fun texture_effect ::
  "texture_unit \<times> (texture_unit \<Rightarrow> GLuint option) \<Rightarrow> lib_call
     \<Rightarrow> texture_unit \<times> (texture_unit \<Rightarrow> GLuint option)" where
  "texture_effect (active, bound) (glActiveTexture u) = (u, bound)"
| "texture_effect (active, bound) (glBindTexture t) = (active, bound(active := Some t))"
| "texture_effect st _ = st"

fun is_draw_call :: "lib_call \<Rightarrow> bool" where
  "is_draw_call (glDrawElements n) = True"
| "is_draw_call _ = False"

fun is_texture_call :: "lib_call \<Rightarrow> bool" where
  "is_texture_call (glActiveTexture u) = True"
| "is_texture_call (glBindTexture t) = True"
| "is_texture_call _ = False"

definition units_at_draw ::
  "texture_unit \<times> (texture_unit \<Rightarrow> GLuint option) \<Rightarrow> lib_call list
     \<Rightarrow> texture_unit \<Rightarrow> GLuint option" where
  "units_at_draw st calls =
     snd (foldl texture_effect st (takeWhile (\<lambda>c. \<not> is_draw_call c) calls))"

text \<open>
  \<^verbatim>\<open>std::make_pair(std::round(a), std::round(b))\<close> converted to
  \<^verbatim>\<open>std::pair<uint32_t, uint32_t>\<close>.
\<close>

definition make_pair_uint32 :: "f32 \<Rightarrow> f32 \<Rightarrow> (uint32_t \<times> uint32_t) option" where
  "make_pair_uint32 a b =
     (case to_uint32 a of
        None \<Rightarrow> None
      | Some m \<Rightarrow> (case to_uint32 b of None \<Rightarrow> None | Some n \<Rightarrow> Some (m, n)))"

definition get_size :: "Renderable \<Rightarrow> (uint32_t \<times> uint32_t) option" where
  "get_size r = make_pair_uint32 (fround (vec2_x (scale r))) (fround (vec2_y (scale r)))"

definition get_position_Center :: "Renderable \<Rightarrow> (uint32_t \<times> uint32_t) option" where
  "get_position_Center r =
     make_pair_uint32 (fround (vec3_x (position r))) (fround (vec3_y (position r)))"

definition get_position_TopLeft :: "Renderable \<Rightarrow> (uint32_t \<times> uint32_t) option" where
  "get_position_TopLeft r =
     (let top_left_x = fsub (vec3_x (position r)) (fdiv (vec2_x (scale r)) (Finite 2));
          top_left_y = fsub (vec3_y (position r)) (fdiv (vec2_y (scale r)) (Finite 2))
      in make_pair_uint32 (fround top_left_x) (fround top_left_y))"

definition get_format :: "Renderable \<Rightarrow> tex_format" where
  "get_format r = format r"

section \<open>window.h: Window and the context token\<close>

text \<open>
  GLFW is a third-party library. Of a \<^verbatim>\<open>GLFWwindow\<close> the model keeps the close flag, an
  \<^verbatim>\<open>int\<close> that \<^verbatim>\<open>glfwWindowShouldClose\<close> returns and \<^verbatim>\<open>glfwSetWindowShouldClose\<close> sets.
\<close>

definition GLFW_TRUE :: int where "GLFW_TRUE = 1"
definition GLFW_FALSE :: int where "GLFW_FALSE = 0"
definition GLFW_KEY_ESCAPE :: int where "GLFW_KEY_ESCAPE = 256"
definition GLFW_PRESS :: int where "GLFW_PRESS = 1"

record GLFWwindow =
  shouldClose :: int

definition glfwWindowShouldClose :: "GLFWwindow \<Rightarrow> int" where
  "glfwWindowShouldClose h = shouldClose h"

definition glfwSetWindowShouldClose :: "GLFWwindow \<Rightarrow> int \<Rightarrow> GLFWwindow" where
  "glfwSetWindowShouldClose h v = h\<lparr>shouldClose := v\<rparr>"

record WindowSize =
  ws_width :: int
  ws_height :: int

record Window =
  window_width :: int
  window_height :: int
  window_title :: string
  projection_matrix :: mat4
  window :: GLFWwindow
  context_out :: bool

text \<open>
  The constructor: \<open>created\<close> is what \<^verbatim>\<open>glfwCreateWindow\<close> returns (\<open>None\<close> for
  \<^verbatim>\<open>nullptr\<close>), \<open>description\<close> what \<^verbatim>\<open>glfwGetError\<close> reports.
\<close>

definition Window_ctor ::
  "WindowSize \<Rightarrow> string \<Rightarrow> GLFWwindow option \<Rightarrow> string \<Rightarrow> exn + Window" where
  "Window_ctor sz title created description =
     (case created of
        None \<Rightarrow> Inl (runtime_error description)
      | Some h \<Rightarrow>
          Inr \<lparr>window_width = ws_width sz, window_height = ws_height sz,
               window_title = title,
               projection_matrix =
                 glm_ortho (Finite 0) (f32_of_int (ws_width sz))
                   (f32_of_int (ws_height sz)) (Finite 0),
               window = h, context_out = False\<rparr>)"

definition swap_buffers :: "Window \<Rightarrow> lib_call list" where
  "swap_buffers w = [glfwSwapBuffers]"

definition should_close :: "Window \<Rightarrow> bool" where
  "should_close w = (glfwWindowShouldClose (window w) \<noteq> GLFW_TRUE)"

definition framebuffer_size_callback :: "Window \<Rightarrow> int \<Rightarrow> int \<Rightarrow> Window" where
  "framebuffer_size_callback w wd ht =
     w\<lparr>window_width := wd, window_height := ht,
       projection_matrix := glm_ortho (Finite 0) (f32_of_int wd) (f32_of_int ht) (Finite 0)\<rparr>"

definition key_callback :: "Window \<Rightarrow> int \<Rightarrow> int \<Rightarrow> int \<Rightarrow> int \<Rightarrow> Window" where
  "key_callback w key scancode action mods =
     (if key = GLFW_KEY_ESCAPE \<and> action = GLFW_PRESS
      then w\<lparr>window := glfwSetWindowShouldClose (window w) GLFW_TRUE\<rparr>
      else w)"

text \<open>
  \<^verbatim>\<open>std::atomic<bool>::compare_exchange_strong(expected, desired)\<close> on a flag holding
  \<open>cur\<close>: whether it succeeded, and the flag afterwards.
\<close>

definition compare_exchange_strong :: "bool \<Rightarrow> bool \<Rightarrow> bool \<Rightarrow> bool \<times> bool" where
  "compare_exchange_strong cur expected desired =
     (if cur = expected then (True, desired) else (False, cur))"

text \<open>The token \<^verbatim>\<open>OpenGLContext\<close> has one data member, the reference to its window.\<close>

datatype OpenGLContext = OpenGLContext

definition get_context :: "Window \<Rightarrow> (exn + OpenGLContext) \<times> Window \<times> lib_call list" where
  "get_context w =
     (case compare_exchange_strong (context_out w) False True of
        (ok, flag) \<Rightarrow>
          if \<not> ok then
            (Inl (runtime_error ''OpenGL context already acquired!''), w\<lparr>context_out := flag\<rparr>, [])
          else (Inr OpenGLContext, w\<lparr>context_out := flag\<rparr>, [glfwMakeContextCurrent True]))"

text \<open>\<^verbatim>\<open>~OpenGLContext\<close>, as it acts on the window the token refers to.\<close>

definition OpenGLContext_dtor :: "Window \<Rightarrow> Window \<times> lib_call list" where
  "OpenGLContext_dtor w = (w\<lparr>context_out := False\<rparr>, [glfwMakeContextCurrent False])"

text \<open>
  A program uses a window's context by acquiring tokens and letting them go out of scope.
  The state of such a program is the window and the tokens that are alive. \<open>Acquire\<close>
  calls \<^verbatim>\<open>get_context\<close> (an exception leaves no token behind); \<open>Release\<close> destroys a
  live token, and does nothing when there is none.
\<close>

datatype ctx_op = Acquire | Release

record ctx_state =
  ctx_window :: Window
  live_tokens :: "OpenGLContext list"

fun ctx_step :: "ctx_state \<Rightarrow> ctx_op \<Rightarrow> ctx_state" where
  "ctx_step s Acquire =
     (case get_context (ctx_window s) of
        (Inl e, w', calls) \<Rightarrow> s\<lparr>ctx_window := w'\<rparr>
      | (Inr tok, w', calls) \<Rightarrow> s\<lparr>ctx_window := w', live_tokens := tok # live_tokens s\<rparr>)"
| "ctx_step s Release =
     (case live_tokens s of
        [] \<Rightarrow> s
      | tok # toks \<Rightarrow> s\<lparr>ctx_window := fst (OpenGLContext_dtor (ctx_window s)), live_tokens := toks\<rparr>)"

definition ctx_run :: "Window \<Rightarrow> ctx_op list \<Rightarrow> ctx_state" where
  "ctx_run w ops = foldl ctx_step \<lparr>ctx_window = w, live_tokens = []\<rparr> ops"

text \<open>The invariant of such a program: at most one token, and the flag says whether there is one.\<close>

definition ctx_inv :: "ctx_state \<Rightarrow> bool" where
  "ctx_inv s =
     (length (live_tokens s) \<le> 1 \<and> (context_out (ctx_window s) = (live_tokens s \<noteq> [])))"

section \<open>main.cpp: the render loop\<close>

definition main_window_width :: int where "main_window_width = 800"
definition main_window_height :: int where "main_window_height = 600"

text \<open>The window that \<^verbatim>\<open>main\<close> constructs, when GLFW creates it with its close flag unset.\<close>

definition main_window :: Window where
  "main_window =
     \<lparr>window_width = main_window_width, window_height = main_window_height,
       window_title = ''Window 1'',
       projection_matrix =
         glm_ortho (Finite 0) (f32_of_int main_window_width)
           (f32_of_int main_window_height) (Finite 0),
       window = \<lparr>shouldClose = GLFW_FALSE\<rparr>, context_out = False\<rparr>"

definition projectionMatrix :: mat4 where
  "projectionMatrix =
     glm_ortho (Finite 0) (f32_of_int main_window_width) (f32_of_int main_window_height) (Finite 0)"

text \<open>
  A driver that compiles and links whatever it is given: it names the vertex shader 1,
  the fragment shader 2 and the program 3. \<open>driver_fragment_fails\<close> is the same driver
  when the fragment shader does not compile.
\<close>

definition driver_ok :: gl_driver where
  "driver_ok =
     \<lparr>createShader = (\<lambda>ty. if ty = GL_VERTEX_SHADER then 1 else 2),
       compileStatus = (\<lambda>s. 1), shaderInfoLogLength = (\<lambda>s. 0), shaderInfoLog = (\<lambda>s. []),
       createProgram = 3,
       linkStatus = (\<lambda>p. 1), programInfoLogLength = (\<lambda>p. 0), programInfoLog = (\<lambda>p. []),
       uniformLocation = (\<lambda>p name. if name = ''u_Transform'' then 0
                                   else if name = ''u_Projection'' then 1
                                   else if name = ''u_texture'' then 2 else - 1),
       attribLocation = (\<lambda>p name. if name = ''a_position'' then 0
                                  else if name = ''a_texCoord'' then 1 else - 1)\<rparr>"

definition driver_fragment_fails :: gl_driver where
  "driver_fragment_fails = driver_ok\<lparr>compileStatus := (\<lambda>s. if s = 2 then 0 else 1)\<rparr>"

text \<open>
  The objects of \<^verbatim>\<open>main\<close>'s render thread under \<open>driver_ok\<close>, with the buffer, vertex
  array and texture names that \<^verbatim>\<open>glGen*\<close> hands out first: the shader program, the quad
  mesh of six indices, the 800 by 600 RGBA texture, and the renderable \<^verbatim>\<open>square\<close> after
  \<^verbatim>\<open>set_scale({200, 100})\<close> (its position is still indeterminate).
\<close>

definition main_shaderProgram :: ShaderProgram where
  "main_shaderProgram =
     \<lparr>shaderProgram = 3, m_UniformLocationCache = Map.empty,
       m_AttributeLocationCache = Map.empty\<rparr>"

definition main_quad :: Mesh where
  "main_quad =
     \<lparr>vertex_array = Some \<lparr>va_vbo = Some \<lparr>vbo = 1\<rparr>, vao = 1\<rparr>,
       vertex_buffer = Some \<lparr>vbo = 1\<rparr>,
       index_buffer = Some \<lparr>ibo = 2, count = 6\<rparr>\<rparr>"

definition main_tex :: Texture where
  "main_tex = \<lparr>width = 800, height = 600, textureId = 1, pbo = 3, buffer_size = 1920000\<rparr>"

definition main_square :: "vec3 \<Rightarrow> Renderable" where
  "main_square indet_position =
     \<lparr>format = GL_RGBA, mesh = Some main_quad, texture_y = Some main_tex,
       texture_u = None, texture_v = None,
       position = indet_position, scale = vec2 (Finite 200) (Finite 100),
       transform = glm_mat4 (Finite 1), dirty = True\<rparr>"

text \<open>
  The body of \<^verbatim>\<open>while (!stop_token.stop_requested())\<close>, on the shader program and the
  renderable of the render thread.
\<close>

definition frame ::
  "gl_driver \<Rightarrow> Window \<Rightarrow> ShaderProgram \<times> Renderable
     \<Rightarrow> ((ShaderProgram \<times> Renderable) \<times> lib_call list) option" where
  "frame gl w st =
     (case st of
        (prog, square) \<Rightarrow>
          (let square1 = set_position_Center square
                           (vec3 (fdiv (f32_of_int main_window_width) (Finite 2))
                                 (fdiv (f32_of_int main_window_height) (Finite 2)) (Finite 0));
               c1 = [glViewport 0 0 main_window_width main_window_height, glClear]
                    @ use prog
           in case set_mat4 gl prog ''u_Projection'' projectionMatrix of
                (prog1, c2) \<Rightarrow>
                  (case draw gl prog1 square1 of
                     None \<Rightarrow> None
                   | Some (prog2, square2, c3) \<Rightarrow>
                       Some ((prog2, square2), c1 @ c2 @ c3 @ swap_buffers w))))"

text \<open>
  The loop, run for the \<open>n\<close> iterations before a stop is requested: the state after the
  last one and the calls of each iteration.
\<close>

fun render_loop ::
  "gl_driver \<Rightarrow> Window \<Rightarrow> nat \<Rightarrow> ShaderProgram \<times> Renderable
     \<Rightarrow> ((ShaderProgram \<times> Renderable) \<times> lib_call list list) option" where
  "render_loop gl w 0 st = Some (st, [])"
| "render_loop gl w (Suc n) st =
     (case frame gl w st of
        None \<Rightarrow> None
      | Some (st', calls) \<Rightarrow>
          (case render_loop gl w n st' of
             None \<Rightarrow> None
           | Some (st'', rest) \<Rightarrow> Some (st'', calls # rest)))"

text \<open>
  The steps of a frame that the specification names, and the step a call belongs to.
  \<open>steps\<close> reads a frame in the words of the specification: consecutive calls of one
  step count as that step once.
\<close>

datatype frame_step = Clear | UseShader | SetUniforms | BindTextures | DrawCall | SwapBuffers

fun step_of :: "lib_call \<Rightarrow> frame_step option" where
  "step_of glClear = Some Clear"
| "step_of (glUseProgram p) = Some UseShader"
| "step_of (glUniform1i l v) = Some SetUniforms"
| "step_of (glUniformMatrix4fv l m) = Some SetUniforms"
| "step_of (glActiveTexture u) = Some BindTextures"
| "step_of (glBindTexture t) = Some BindTextures"
| "step_of (glDrawElements n) = Some DrawCall"
| "step_of glfwSwapBuffers = Some SwapBuffers"
| "step_of _ = None"

definition steps :: "lib_call list \<Rightarrow> frame_step list" where
  "steps calls = remdups_adj (List.map_filter step_of calls)"

text \<open>
  What \<^verbatim>\<open>get_uniform_location\<close> answers for a name and the calls it makes for it: the
  cached location and no call, or one \<^verbatim>\<open>glGetUniformLocation\<close> and its answer.
\<close>

definition location_of :: "gl_driver \<Rightarrow> ShaderProgram \<Rightarrow> string \<Rightarrow> GLint" where
  "location_of gl sp name = fst (get_uniform_location gl sp name)"

definition location_query :: "gl_driver \<Rightarrow> ShaderProgram \<Rightarrow> string \<Rightarrow> lib_call list" where
  "location_query gl sp name = snd (snd (get_uniform_location gl sp name))"

section \<open>The objects of main\<close>

lemma ShaderProgram_ctor_main:
  "fst (ShaderProgram_ctor driver_ok vertex_shader fragment_shader) = Inr main_shaderProgram"
  by (simp add: ShaderProgram_ctor_def LoadShader_def driver_ok_def main_shaderProgram_def)

lemma main_square_eq:
  "map_option (\<lambda>r. set_scale r (vec2 (Finite 200) (Finite 100)))
     (Renderable_ctor GL_RGBA (Some main_quad) (Some main_tex) indet_position indet_scale)
   = Some (main_square indet_position)"
  by (simp add: Renderable_ctor_def set_scale_def main_square_def)

section \<open>The context token\<close>

lemma get_context_eq:
  "get_context w =
     (if context_out w then (Inl (runtime_error ''OpenGL context already acquired!''), w, [])
      else (Inr OpenGLContext, w\<lparr>context_out := True\<rparr>, [glfwMakeContextCurrent True]))"
  by (simp add: get_context_def compare_exchange_strong_def)

lemma ctx_step_inv: "ctx_inv s \<Longrightarrow> ctx_inv (ctx_step s op)"
  by (cases op; cases "live_tokens s")
     (auto simp: ctx_inv_def get_context_eq OpenGLContext_dtor_def)

lemma ctx_foldl_inv: "ctx_inv s \<Longrightarrow> ctx_inv (foldl ctx_step s ops)"
  by (induction ops arbitrary: s) (simp_all add: ctx_step_inv)

lemma Window_ctor_context_out:
  "Window_ctor sz title created description = Inr w \<Longrightarrow> context_out w = False"
  by (auto simp: Window_ctor_def split: option.splits)

lemma ctx_run_inv: "context_out w0 = False \<Longrightarrow> ctx_inv (ctx_run w0 ops)"
  unfolding ctx_run_def by (rule ctx_foldl_inv) (simp add: ctx_inv_def)

lemma Window_ctor_main:
  "Window_ctor \<lparr>ws_width = main_window_width, ws_height = main_window_height\<rparr> ''Window 1''
     (Some \<lparr>shouldClose = GLFW_FALSE\<rparr>) description = Inr main_window"
  by (simp add: Window_ctor_def main_window_def)

text \<open>
  Claim C1. For a window as its constructor leaves it, and after any sequence of
  acquisitions and token destructions: at most one token is alive, and the flag is set
  exactly when one is. \<^verbatim>\<open>get_context\<close> with the flag set throws
  \<open>runtime_error "OpenGL context already acquired!"\<close>, makes no call and leaves the window
  as it was; with the flag clear it returns a token and sets the flag. The token's
  destructor clears the flag, and the next \<^verbatim>\<open>get_context\<close> returns a token.
\<close>

theorem C1_single_live_context:
  assumes "Window_ctor sz title created description = Inr w0"
  shows "let s = ctx_run w0 ops; w = ctx_window s in
           length (live_tokens s) \<le> 1 \<and>
           (context_out w = (length (live_tokens s) = 1)) \<and>
           (if context_out w
            then get_context w = (Inl (runtime_error ''OpenGL context already acquired!''), w, [])
            else fst (get_context w) = Inr OpenGLContext \<and>
                 context_out (fst (snd (get_context w))) = True) \<and>
           context_out (fst (OpenGLContext_dtor w)) = False \<and>
           fst (get_context (fst (OpenGLContext_dtor w))) = Inr OpenGLContext"
proof -
  have "ctx_inv (ctx_run w0 ops)"
    using assms by (intro ctx_run_inv Window_ctor_context_out)
  then show ?thesis
    by (cases "live_tokens (ctx_run w0 ops)")
       (auto simp: ctx_inv_def Let_def get_context_eq OpenGLContext_dtor_def)
qed

theorem C1_single_live_context_witness:
  "Window_ctor \<lparr>ws_width = main_window_width, ws_height = main_window_height\<rparr> ''Window 1''
     (Some \<lparr>shouldClose = GLFW_FALSE\<rparr>) [] = Inr main_window \<and>
   live_tokens (ctx_run main_window [Acquire, Acquire, Release, Acquire]) = [OpenGLContext] \<and>
   context_out (ctx_window (ctx_run main_window [Acquire, Acquire, Release, Acquire])) \<and>
   get_context (ctx_window (ctx_run main_window [Acquire, Acquire, Release, Acquire])) =
     (Inl (runtime_error ''OpenGL context already acquired!''),
      ctx_window (ctx_run main_window [Acquire, Acquire, Release, Acquire]), [])"
proof -
  have live: "live_tokens (ctx_run main_window [Acquire, Acquire, Release, Acquire]) = [OpenGLContext]"
    by (simp add: ctx_run_def get_context_eq OpenGLContext_dtor_def main_window_def)
  show ?thesis
    using C1_single_live_context [OF Window_ctor_main [of "[]"],
        of "[Acquire, Acquire, Release, Acquire]"] live Window_ctor_main [of "[]"]
    by (simp add: Let_def)
qed

section \<open>Window::should_close\<close>

text \<open>
  Claim C9. \<^verbatim>\<open>should_close\<close> returns the negation of the test "GLFW's close flag is
  \<^verbatim>\<open>GLFW_TRUE\<close>": it is true while the flag is \<^verbatim>\<open>GLFW_FALSE\<close> (the window stays open) and
  false once the flag is \<^verbatim>\<open>GLFW_TRUE\<close>, as after the key callback saw Escape pressed.
\<close>

theorem C9_should_close_negated:
  "should_close w = (\<not> (glfwWindowShouldClose (window w) = GLFW_TRUE)) \<and>
   (glfwWindowShouldClose (window w) = GLFW_FALSE \<longrightarrow> should_close w) \<and>
   (glfwWindowShouldClose (window w) = GLFW_TRUE \<longrightarrow> \<not> should_close w) \<and>
   \<not> should_close (key_callback w GLFW_KEY_ESCAPE scancode GLFW_PRESS mods)"
  by (simp add: should_close_def key_callback_def glfwWindowShouldClose_def
        glfwSetWindowShouldClose_def GLFW_TRUE_def GLFW_FALSE_def)

theorem C9_should_close_negated_witness:
  "glfwWindowShouldClose (window main_window) = GLFW_FALSE \<and> should_close main_window \<and>
   glfwWindowShouldClose (window (key_callback main_window GLFW_KEY_ESCAPE 9 GLFW_PRESS 0))
     = GLFW_TRUE \<and>
   \<not> should_close (key_callback main_window GLFW_KEY_ESCAPE 9 GLFW_PRESS 0)"
  using C9_should_close_negated [of main_window 9 0]
    C9_should_close_negated [of "key_callback main_window GLFW_KEY_ESCAPE 9 GLFW_PRESS 0" 9 0]
  by (simp add: main_window_def glfwWindowShouldClose_def key_callback_def
        glfwSetWindowShouldClose_def)

section \<open>The location caches of ShaderProgram\<close>

lemma get_uniform_location_hit:
  "m_UniformLocationCache sp name = Some l \<Longrightarrow> get_uniform_location gl sp name = (l, sp, [])"
  by (simp add: get_uniform_location_def)

lemma get_uniform_location_miss:
  "m_UniformLocationCache sp name = None \<Longrightarrow>
   get_uniform_location gl sp name =
     (uniformLocation gl (shaderProgram sp) name,
      sp\<lparr>m_UniformLocationCache :=
           (m_UniformLocationCache sp)(name \<mapsto> uniformLocation gl (shaderProgram sp) name)\<rparr>,
      [glGetUniformLocation (shaderProgram sp) name])"
  by (simp add: get_uniform_location_def Let_def)

lemma get_uniform_location_stores:
  "get_uniform_location gl sp name = (l, sp', calls) \<Longrightarrow>
   m_UniformLocationCache sp' name = Some l"
  by (auto simp: get_uniform_location_def Let_def split: option.splits)

lemma uniform_lookups_cached:
  "m_UniformLocationCache sp name = Some l \<Longrightarrow> uniform_lookups sp qs = (ls, sp', calls) \<Longrightarrow>
   m_UniformLocationCache sp' name = Some l \<and>
   count_list calls (glGetUniformLocation (shaderProgram sp) name) = 0 \<and>
   (\<forall>i < length qs. snd (qs ! i) = name \<longrightarrow> ls ! i = l) \<and>
   shaderProgram sp' = shaderProgram sp \<and> length ls = length qs"
proof (induction qs arbitrary: sp ls sp' calls)
  case Nil
  then show ?case by simp
next
  case (Cons q qs)
  obtain gl n where q: "q = (gl, n)" by (cases q)
  obtain l1 sp1 c1 where g: "get_uniform_location gl sp n = (l1, sp1, c1)"
    by (cases "get_uniform_location gl sp n")
  obtain ls2 sp2 c2 where u: "uniform_lookups sp1 qs = (ls2, sp2, c2)"
    by (cases "uniform_lookups sp1 qs")
  from Cons.prems(2) q g u have res: "ls = l1 # ls2" "sp' = sp2" "calls = c1 @ c2"
    by simp_all
  have sp1: "m_UniformLocationCache sp1 name = Some l" "shaderProgram sp1 = shaderProgram sp"
    and c1: "count_list c1 (glGetUniformLocation (shaderProgram sp) name) = 0"
    and l1: "n = name \<longrightarrow> l1 = l"
    using g Cons.prems(1)
    by (auto simp: get_uniform_location_def Let_def split: option.splits)
  from Cons.IH [OF sp1(1) u] sp1(2)
  have ih: "m_UniformLocationCache sp2 name = Some l"
    "count_list c2 (glGetUniformLocation (shaderProgram sp) name) = 0"
    "\<forall>i < length qs. snd (qs ! i) = name \<longrightarrow> ls2 ! i = l"
    "shaderProgram sp2 = shaderProgram sp" "length ls2 = length qs"
    by simp_all
  show ?case
    using ih c1 l1 res q
    by (auto simp: nth_Cons split: nat.splits)
qed

lemma uniform_lookups_once:
  "uniform_lookups sp qs = (ls, sp', calls) \<Longrightarrow>
   count_list calls (glGetUniformLocation (shaderProgram sp) name) \<le> 1"
proof (induction qs arbitrary: sp ls sp' calls)
  case Nil
  then show ?case by simp
next
  case (Cons q qs)
  obtain gl n where q: "q = (gl, n)" by (cases q)
  obtain l1 sp1 c1 where g: "get_uniform_location gl sp n = (l1, sp1, c1)"
    by (cases "get_uniform_location gl sp n")
  obtain ls2 sp2 c2 where u: "uniform_lookups sp1 qs = (ls2, sp2, c2)"
    by (cases "uniform_lookups sp1 qs")
  from Cons.prems q g u have res: "calls = c1 @ c2" by simp
  have p1: "shaderProgram sp1 = shaderProgram sp"
    using g by (auto simp: get_uniform_location_def Let_def split: option.splits)
  show ?case
  proof (cases "c1 = [] \<or> n \<noteq> name")
    case True
    then have "count_list c1 (glGetUniformLocation (shaderProgram sp) name) = 0"
      using g by (auto simp: get_uniform_location_def Let_def split: option.splits)
    with Cons.IH [OF u] p1 res show ?thesis by simp
  next
    case False
    then have miss: "m_UniformLocationCache sp n = None" and n: "n = name"
      using g by (auto simp: get_uniform_location_def Let_def split: option.splits)
    from g miss n have c1: "c1 = [glGetUniformLocation (shaderProgram sp) name]"
      and hit: "m_UniformLocationCache sp1 name = Some l1"
      by (auto simp: get_uniform_location_def Let_def)
    from uniform_lookups_cached [OF hit u] p1
    have "count_list c2 (glGetUniformLocation (shaderProgram sp) name) = 0" by simp
    with c1 res show ?thesis by simp
  qed
qed

lemma get_attrib_location_hit:
  "m_AttributeLocationCache sp name = Some l \<Longrightarrow> get_attrib_location gl sp name = (l, sp, [])"
  by (simp add: get_attrib_location_def)

lemma get_attrib_location_miss:
  "m_AttributeLocationCache sp name = None \<Longrightarrow>
   get_attrib_location gl sp name =
     (attribLocation gl (shaderProgram sp) name,
      sp\<lparr>m_AttributeLocationCache :=
           (m_AttributeLocationCache sp)(name \<mapsto> attribLocation gl (shaderProgram sp) name)\<rparr>,
      [glGetAttribLocation (shaderProgram sp) name])"
  by (simp add: get_attrib_location_def Let_def)

lemma get_attrib_location_stores:
  "get_attrib_location gl sp name = (l, sp', calls) \<Longrightarrow>
   m_AttributeLocationCache sp' name = Some l"
  by (auto simp: get_attrib_location_def Let_def split: option.splits)

lemma attrib_lookups_cached:
  "m_AttributeLocationCache sp name = Some l \<Longrightarrow> attrib_lookups sp qs = (ls, sp', calls) \<Longrightarrow>
   m_AttributeLocationCache sp' name = Some l \<and>
   count_list calls (glGetAttribLocation (shaderProgram sp) name) = 0 \<and>
   (\<forall>i < length qs. snd (qs ! i) = name \<longrightarrow> ls ! i = l) \<and>
   shaderProgram sp' = shaderProgram sp \<and> length ls = length qs"
proof (induction qs arbitrary: sp ls sp' calls)
  case Nil
  then show ?case by simp
next
  case (Cons q qs)
  obtain gl n where q: "q = (gl, n)" by (cases q)
  obtain l1 sp1 c1 where g: "get_attrib_location gl sp n = (l1, sp1, c1)"
    by (cases "get_attrib_location gl sp n")
  obtain ls2 sp2 c2 where u: "attrib_lookups sp1 qs = (ls2, sp2, c2)"
    by (cases "attrib_lookups sp1 qs")
  from Cons.prems(2) q g u have res: "ls = l1 # ls2" "sp' = sp2" "calls = c1 @ c2"
    by simp_all
  have sp1: "m_AttributeLocationCache sp1 name = Some l" "shaderProgram sp1 = shaderProgram sp"
    and c1: "count_list c1 (glGetAttribLocation (shaderProgram sp) name) = 0"
    and l1: "n = name \<longrightarrow> l1 = l"
    using g Cons.prems(1)
    by (auto simp: get_attrib_location_def Let_def split: option.splits)
  from Cons.IH [OF sp1(1) u] sp1(2)
  have ih: "m_AttributeLocationCache sp2 name = Some l"
    "count_list c2 (glGetAttribLocation (shaderProgram sp) name) = 0"
    "\<forall>i < length qs. snd (qs ! i) = name \<longrightarrow> ls2 ! i = l"
    "shaderProgram sp2 = shaderProgram sp" "length ls2 = length qs"
    by simp_all
  show ?case
    using ih c1 l1 res q
    by (auto simp: nth_Cons split: nat.splits)
qed

lemma attrib_lookups_once:
  "attrib_lookups sp qs = (ls, sp', calls) \<Longrightarrow>
   count_list calls (glGetAttribLocation (shaderProgram sp) name) \<le> 1"
proof (induction qs arbitrary: sp ls sp' calls)
  case Nil
  then show ?case by simp
next
  case (Cons q qs)
  obtain gl n where q: "q = (gl, n)" by (cases q)
  obtain l1 sp1 c1 where g: "get_attrib_location gl sp n = (l1, sp1, c1)"
    by (cases "get_attrib_location gl sp n")
  obtain ls2 sp2 c2 where u: "attrib_lookups sp1 qs = (ls2, sp2, c2)"
    by (cases "attrib_lookups sp1 qs")
  from Cons.prems q g u have res: "calls = c1 @ c2" by simp
  have p1: "shaderProgram sp1 = shaderProgram sp"
    using g by (auto simp: get_attrib_location_def Let_def split: option.splits)
  show ?case
  proof (cases "c1 = [] \<or> n \<noteq> name")
    case True
    then have "count_list c1 (glGetAttribLocation (shaderProgram sp) name) = 0"
      using g by (auto simp: get_attrib_location_def Let_def split: option.splits)
    with Cons.IH [OF u] p1 res show ?thesis by simp
  next
    case False
    then have miss: "m_AttributeLocationCache sp n = None" and n: "n = name"
      using g by (auto simp: get_attrib_location_def Let_def split: option.splits)
    from g miss n have c1: "c1 = [glGetAttribLocation (shaderProgram sp) name]"
      and hit: "m_AttributeLocationCache sp1 name = Some l1"
      by (auto simp: get_attrib_location_def Let_def)
    from attrib_lookups_cached [OF hit u] p1
    have "count_list c2 (glGetAttribLocation (shaderProgram sp) name) = 0" by simp
    with c1 res show ?thesis by simp
  qed
qed

text \<open>
  Claim C6. In any sequence of \<^verbatim>\<open>get_uniform_location\<close> calls on a program, whatever its
  cache held at the start, \<^verbatim>\<open>glGetUniformLocation\<close> is called at most once for a name. A
  call with a name that is not cached queries the driver and stores the answer, whatever
  its sign. Once a call has returned \<open>l\<close> for a name, a later call with that name, after any
  other lookups and whatever the driver would answer then, returns \<open>l\<close>, makes no call and
  leaves the program as it is. The same holds of \<^verbatim>\<open>get_attrib_location\<close>.
\<close>

theorem C6_location_queried_once:
  "(uniform_lookups sp qs = (ls, sp', calls) \<longrightarrow>
      count_list calls (glGetUniformLocation (shaderProgram sp) name) \<le> 1) \<and>
   (m_UniformLocationCache sp name = None \<longrightarrow>
      get_uniform_location gl sp name =
        (uniformLocation gl (shaderProgram sp) name,
         sp\<lparr>m_UniformLocationCache :=
              (m_UniformLocationCache sp)(name \<mapsto> uniformLocation gl (shaderProgram sp) name)\<rparr>,
         [glGetUniformLocation (shaderProgram sp) name])) \<and>
   (get_uniform_location gl sp name = (l, sp1, calls1) \<and>
    uniform_lookups sp1 qs = (ls, sp2, calls2) \<longrightarrow>
      get_uniform_location gl' sp2 name = (l, sp2, [])) \<and>
   (attrib_lookups sp qs = (ls, sp', calls) \<longrightarrow>
      count_list calls (glGetAttribLocation (shaderProgram sp) name) \<le> 1) \<and>
   (m_AttributeLocationCache sp name = None \<longrightarrow>
      get_attrib_location gl sp name =
        (attribLocation gl (shaderProgram sp) name,
         sp\<lparr>m_AttributeLocationCache :=
              (m_AttributeLocationCache sp)(name \<mapsto> attribLocation gl (shaderProgram sp) name)\<rparr>,
         [glGetAttribLocation (shaderProgram sp) name])) \<and>
   (get_attrib_location gl sp name = (l, sp1, calls1) \<and>
    attrib_lookups sp1 qs = (ls, sp2, calls2) \<longrightarrow>
      get_attrib_location gl' sp2 name = (l, sp2, []))"
proof (intro conjI impI)
  assume "uniform_lookups sp qs = (ls, sp', calls)"
  then show "count_list calls (glGetUniformLocation (shaderProgram sp) name) \<le> 1"
    by (rule uniform_lookups_once)
next
  assume "m_UniformLocationCache sp name = None"
  then show "get_uniform_location gl sp name =
        (uniformLocation gl (shaderProgram sp) name,
         sp\<lparr>m_UniformLocationCache :=
              (m_UniformLocationCache sp)(name \<mapsto> uniformLocation gl (shaderProgram sp) name)\<rparr>,
         [glGetUniformLocation (shaderProgram sp) name])"
    by (rule get_uniform_location_miss)
next
  assume "get_uniform_location gl sp name = (l, sp1, calls1) \<and>
          uniform_lookups sp1 qs = (ls, sp2, calls2)"
  then have "m_UniformLocationCache sp2 name = Some l"
    using uniform_lookups_cached get_uniform_location_stores by blast
  then show "get_uniform_location gl' sp2 name = (l, sp2, [])"
    by (rule get_uniform_location_hit)
next
  assume "attrib_lookups sp qs = (ls, sp', calls)"
  then show "count_list calls (glGetAttribLocation (shaderProgram sp) name) \<le> 1"
    by (rule attrib_lookups_once)
next
  assume "m_AttributeLocationCache sp name = None"
  then show "get_attrib_location gl sp name =
        (attribLocation gl (shaderProgram sp) name,
         sp\<lparr>m_AttributeLocationCache :=
              (m_AttributeLocationCache sp)(name \<mapsto> attribLocation gl (shaderProgram sp) name)\<rparr>,
         [glGetAttribLocation (shaderProgram sp) name])"
    by (rule get_attrib_location_miss)
next
  assume "get_attrib_location gl sp name = (l, sp1, calls1) \<and>
          attrib_lookups sp1 qs = (ls, sp2, calls2)"
  then have "m_AttributeLocationCache sp2 name = Some l"
    using attrib_lookups_cached get_attrib_location_stores by blast
  then show "get_attrib_location gl' sp2 name = (l, sp2, [])"
    by (rule get_attrib_location_hit)
qed

theorem C6_location_queried_once_witness:
  "fst (uniform_lookups main_shaderProgram
         [(driver_ok, ''u_texture''), (driver_ok, ''missing''),
          (driver_ok\<lparr>uniformLocation := (\<lambda>p name. 7)\<rparr>, ''u_texture''),
          (driver_ok, ''missing'')])
     = [2, - 1, 2, - 1] \<and>
   snd (snd (uniform_lookups main_shaderProgram
         [(driver_ok, ''u_texture''), (driver_ok, ''missing''),
          (driver_ok\<lparr>uniformLocation := (\<lambda>p name. 7)\<rparr>, ''u_texture''),
          (driver_ok, ''missing'')]))
     = [glGetUniformLocation 3 ''u_texture'', glGetUniformLocation 3 ''missing''] \<and>
   count_list (snd (snd (uniform_lookups main_shaderProgram
         [(driver_ok, ''u_texture''), (driver_ok, ''missing''),
          (driver_ok\<lparr>uniformLocation := (\<lambda>p name. 7)\<rparr>, ''u_texture''),
          (driver_ok, ''missing'')])))
     (glGetUniformLocation (shaderProgram main_shaderProgram) ''missing'') \<le> 1"
proof -
  let ?qs = "[(driver_ok, ''u_texture''), (driver_ok, ''missing''),
              (driver_ok\<lparr>uniformLocation := (\<lambda>p name. 7)\<rparr>, ''u_texture''),
          (driver_ok, ''missing'')]"
  let ?r = "uniform_lookups main_shaderProgram ?qs"
  have r: "?r = (fst ?r, fst (snd ?r), snd (snd ?r))"
    by (rule surjective_pairing [THEN trans]) (rule arg_cong [OF surjective_pairing])
  have c: "count_list (snd (snd ?r))
             (glGetUniformLocation (shaderProgram main_shaderProgram) ''missing'') \<le> 1"
    using C6_location_queried_once [of main_shaderProgram ?qs "fst ?r" "fst (snd ?r)"
        "snd (snd ?r)" "''missing''"] r
    by blast
  have e1: "fst ?r = [2, - 1, 2, - 1]"
    by code_simp
  have e2: "snd (snd ?r) = [glGetUniformLocation 3 ''u_texture'', glGetUniformLocation 3 ''missing'']"
    by code_simp
  show ?thesis
    by (intro conjI e1 e2 c)
qed

section \<open>Failure of ShaderProgram construction\<close>

lemma LoadShader_Inr:
  "LoadShader gl ty src = (Inr s, calls) \<Longrightarrow>
   s = createShader gl ty \<and> s \<noteq> 0 \<and> compileStatus gl s \<noteq> 0 \<and>
   calls = [glCreateShader ty s, glShaderSource s src, glCompileShader s,
            glGetShaderiv s GL_COMPILE_STATUS]"
  by (auto simp: LoadShader_def Let_def split: if_splits)

lemma LoadShader_Inl:
  "LoadShader gl ty src = (Inl e, calls) \<Longrightarrow>
   (createShader gl ty = 0 \<or> compileStatus gl (createShader gl ty) = 0) \<and>
   live_shaders calls = {}"
  by (auto simp: LoadShader_def Let_def live_shaders_def split: if_splits)

lemma LoadShader_succeeds_iff:
  "(\<exists>s. fst (LoadShader gl ty src) = Inr s) \<longleftrightarrow>
   createShader gl ty \<noteq> 0 \<and> compileStatus gl (createShader gl ty) \<noteq> 0"
  by (auto simp: LoadShader_def Let_def)

text \<open>
  The constructor throws exactly when a shader or the program cannot be allocated, a
  shader does not compile, or the program does not link.
\<close>

lemma ShaderProgram_ctor_throws_iff:
  "(\<exists>e. fst (ShaderProgram_ctor gl vertex_shader fragment_shader) = Inl e) \<longleftrightarrow>
   createShader gl GL_VERTEX_SHADER = 0 \<or>
   compileStatus gl (createShader gl GL_VERTEX_SHADER) = 0 \<or>
   createShader gl GL_FRAGMENT_SHADER = 0 \<or>
   compileStatus gl (createShader gl GL_FRAGMENT_SHADER) = 0 \<or>
   createProgram gl = 0 \<or> linkStatus gl (createProgram gl) = 0"
  by (auto simp: ShaderProgram_ctor_def LoadShader_def Let_def)

text \<open>
  When the vertex shader compiles and the fragment shader does not (or cannot be
  allocated), the constructor throws and the vertex shader object stays alive.
\<close>

lemma ShaderProgram_ctor_fragment_fails:
  assumes "LoadShader gl GL_VERTEX_SHADER vertex_shader = (Inr v, c1)"
    and "LoadShader gl GL_FRAGMENT_SHADER fragment_shader = (Inl e, c2)"
    and "createShader gl GL_FRAGMENT_SHADER \<noteq> v"
  shows "ShaderProgram_ctor gl vertex_shader fragment_shader = (Inl e, c1 @ c2)"
    and "live_shaders (c1 @ c2) = {v}"
proof -
  show "ShaderProgram_ctor gl vertex_shader fragment_shader = (Inl e, c1 @ c2)"
    using assms(1,2) by (simp add: ShaderProgram_ctor_def)
  from LoadShader_Inr [OF assms(1)]
  have c1: "c1 = [glCreateShader GL_VERTEX_SHADER v, glShaderSource v vertex_shader,
                  glCompileShader v, glGetShaderiv v GL_COMPILE_STATUS]" and v: "v \<noteq> 0"
    by blast+
  show "live_shaders (c1 @ c2) = {v}"
    using assms(2,3) v unfolding c1
    by (auto simp: LoadShader_def Let_def live_shaders_def split: if_splits)
qed

text \<open>
  When both shaders compile and no program object can be allocated, the constructor
  throws and both shader objects stay alive.
\<close>

lemma ShaderProgram_ctor_no_program:
  assumes "LoadShader gl GL_VERTEX_SHADER vertex_shader = (Inr v, c1)"
    and "LoadShader gl GL_FRAGMENT_SHADER fragment_shader = (Inr f, c2)"
    and "createProgram gl = 0"
  shows "fst (ShaderProgram_ctor gl vertex_shader fragment_shader)
           = Inl (runtime_error ''Failed to allocate shader program'')"
    and "live_shaders (snd (ShaderProgram_ctor gl vertex_shader fragment_shader)) = {v, f}"
proof -
  show "fst (ShaderProgram_ctor gl vertex_shader fragment_shader)
           = Inl (runtime_error ''Failed to allocate shader program'')"
    using assms by (simp add: ShaderProgram_ctor_def)
  from LoadShader_Inr [OF assms(1)] LoadShader_Inr [OF assms(2)]
  show "live_shaders (snd (ShaderProgram_ctor gl vertex_shader fragment_shader)) = {v, f}"
    using assms by (auto simp: ShaderProgram_ctor_def live_shaders_def)
qed

text \<open>
  When the program does not link, the constructor throws after deleting the program and
  both shaders: nothing stays alive.
\<close>

lemma ShaderProgram_ctor_link_fails:
  assumes "LoadShader gl GL_VERTEX_SHADER vertex_shader = (Inr v, c1)"
    and "LoadShader gl GL_FRAGMENT_SHADER fragment_shader = (Inr f, c2)"
    and "createProgram gl \<noteq> 0" and "linkStatus gl (createProgram gl) = 0"
  shows "\<exists>e. fst (ShaderProgram_ctor gl vertex_shader fragment_shader) = Inl e"
    and "live_shaders (snd (ShaderProgram_ctor gl vertex_shader fragment_shader)) = {}"
    and "live_programs (snd (ShaderProgram_ctor gl vertex_shader fragment_shader)) = {}"
proof -
  show "\<exists>e. fst (ShaderProgram_ctor gl vertex_shader fragment_shader) = Inl e"
    using assms by (simp add: ShaderProgram_ctor_def Let_def)
  from LoadShader_Inr [OF assms(1)] LoadShader_Inr [OF assms(2)]
  show "live_shaders (snd (ShaderProgram_ctor gl vertex_shader fragment_shader)) = {}"
    using assms by (auto simp: ShaderProgram_ctor_def Let_def live_shaders_def)
  from LoadShader_Inr [OF assms(1)] LoadShader_Inr [OF assms(2)]
  show "live_programs (snd (ShaderProgram_ctor gl vertex_shader fragment_shader)) = {}"
    using assms by (auto simp: ShaderProgram_ctor_def Let_def live_programs_def)
qed

text \<open>
  Claim C5, at the input where it fails: the driver compiles the vertex shader (object 1)
  and rejects the fragment shader (object 2). The constructor throws
  \<open>runtime_error "Error compiling shader"\<close> after deleting the fragment shader only; the
  vertex shader object 1 is never deleted.
\<close>

theorem C5_vertex_shader_leaks:
  "ShaderProgram_ctor driver_fragment_fails vertex_shader fragment_shader =
     (Inl (runtime_error ''Error compiling shader''),
      [glCreateShader GL_VERTEX_SHADER 1, glShaderSource 1 vertex_shader, glCompileShader 1,
       glGetShaderiv 1 GL_COMPILE_STATUS,
       glCreateShader GL_FRAGMENT_SHADER 2, glShaderSource 2 fragment_shader,
       glCompileShader 2, glGetShaderiv 2 GL_COMPILE_STATUS,
       glGetShaderiv 2 GL_INFO_LOG_LENGTH, glDeleteShader 2]) \<and>
   live_shaders (snd (ShaderProgram_ctor driver_fragment_fails vertex_shader fragment_shader))
     = {1}"
proof -
  have v: "LoadShader driver_fragment_fails GL_VERTEX_SHADER vertex_shader =
             (Inr 1, [glCreateShader GL_VERTEX_SHADER 1, glShaderSource 1 vertex_shader,
                      glCompileShader 1, glGetShaderiv 1 GL_COMPILE_STATUS])"
    by (simp add: LoadShader_def driver_fragment_fails_def driver_ok_def)
  have f: "LoadShader driver_fragment_fails GL_FRAGMENT_SHADER fragment_shader =
             (Inl (runtime_error ''Error compiling shader''),
              [glCreateShader GL_FRAGMENT_SHADER 2, glShaderSource 2 fragment_shader,
               glCompileShader 2, glGetShaderiv 2 GL_COMPILE_STATUS,
               glGetShaderiv 2 GL_INFO_LOG_LENGTH, glDeleteShader 2])"
    by (simp add: LoadShader_def driver_fragment_fails_def driver_ok_def word_sless_alt)
  have d: "createShader driver_fragment_fails GL_FRAGMENT_SHADER \<noteq> 1"
    by (simp add: driver_fragment_fails_def driver_ok_def)
  show ?thesis
    using ShaderProgram_ctor_fragment_fails [OF v f d] by simp
qed

section \<open>Move construction of the wrappers\<close>

text \<open>
  Every move constructor hands the GL name to the new object and leaves 0 in the source,
  whose destructor then frees nothing.
\<close>

lemma move_transfers_handle:
  "shaderProgram (fst (ShaderProgram_move sp)) = shaderProgram sp"
  "shaderProgram (snd (ShaderProgram_move sp)) = 0"
  "map released (ShaderProgram_dtor (snd (ShaderProgram_move sp))) = [None]"
  "vbo (fst (VertexBuffer_move vb)) = vbo vb"
  "vbo (snd (VertexBuffer_move vb)) = 0"
  "map released (VertexBuffer_dtor (snd (VertexBuffer_move vb))) = [None]"
  "ibo (fst (IndexBuffer_move ib c)) = ibo ib"
  "ibo (snd (IndexBuffer_move ib c)) = 0"
  "map released (IndexBuffer_dtor (snd (IndexBuffer_move ib c))) = [None]"
  "vao (fst (VertexArray_move va)) = vao va"
  "vao (snd (VertexArray_move va)) = 0"
  "map released (VertexArray_dtor (snd (VertexArray_move va))) = [None]"
  "textureId (fst (Texture_move t w h b)) = textureId t \<and> pbo (fst (Texture_move t w h b)) = pbo t"
  "textureId (snd (Texture_move t w h b)) = 0 \<and> pbo (snd (Texture_move t w h b)) = 0"
  "map released (Texture_dtor (snd (Texture_move t w h b))) = [None, None]"
  by (simp_all add: ShaderProgram_move_def ShaderProgram_dtor_def VertexBuffer_move_def
        VertexBuffer_dtor_def IndexBuffer_move_def IndexBuffer_dtor_def VertexArray_move_def
        VertexArray_dtor_def Texture_move_def Texture_dtor_def)

text \<open>
  Claim C3, at the inputs where it fails. Moving from the index buffer of the quad mesh
  (name 2, six indices) gives an index buffer whose count is whatever its storage held
  (here 0), not 6; moving from the 800 by 600 texture gives a texture whose width, height
  and staging-buffer size are whatever its storage held (here 0). The sources keep these
  values.
\<close>

theorem C3_move_drops_state:
  "IndexBuffer_move \<lparr>ibo = 2, count = 6\<rparr> 0 = (\<lparr>ibo = 2, count = 0\<rparr>, \<lparr>ibo = 0, count = 6\<rparr>) \<and>
   get_count (fst (IndexBuffer_move \<lparr>ibo = 2, count = 6\<rparr> 0)) \<noteq> get_count \<lparr>ibo = 2, count = 6\<rparr> \<and>
   Texture_move main_tex 0 0 0 =
     (\<lparr>width = 0, height = 0, textureId = 1, pbo = 3, buffer_size = 0\<rparr>,
      \<lparr>width = 800, height = 600, textureId = 0, pbo = 0, buffer_size = 1920000\<rparr>) \<and>
   width (fst (Texture_move main_tex 0 0 0)) \<noteq> width main_tex \<and>
   height (fst (Texture_move main_tex 0 0 0)) \<noteq> height main_tex \<and>
   buffer_size (fst (Texture_move main_tex 0 0 0)) \<noteq> buffer_size main_tex"
  by (simp add: IndexBuffer_move_def get_count_def Texture_move_def main_tex_def)

section \<open>Renderable::draw\<close>

lemma update_transform_dirty: "dirty (fst (update_transform r)) = dirty r"
  by (simp add: update_transform_def Let_def)

lemma update_transform_recomputes: "recomputes (snd (update_transform r)) = dirty r"
  by (simp add: update_transform_def Let_def recomputes_def)

lemma update_transform_fields:
  "format (fst (update_transform r)) = format r"
  "mesh (fst (update_transform r)) = mesh r"
  "texture_y (fst (update_transform r)) = texture_y r"
  "texture_u (fst (update_transform r)) = texture_u r"
  "texture_v (fst (update_transform r)) = texture_v r"
  "position (fst (update_transform r)) = position r"
  "scale (fst (update_transform r)) = scale r"
  by (simp_all add: update_transform_def Let_def)

lemma update_transform_transform:
  "dirty r \<Longrightarrow>
   transform (fst (update_transform r)) =
     mat4_times (glm_translate (glm_mat4 (Finite 1)) (position r))
       (glm_scale (glm_mat4 (Finite 1)) (vec3 (vec2_x (scale r)) (vec2_y (scale r)) (Finite 0)))"
  by (simp add: update_transform_def Let_def)

lemma update_transform_clean: "\<not> dirty r \<Longrightarrow> update_transform r = (r, [])"
  by (simp add: update_transform_def)

lemma update_transform_calls:
  "uploaded_matrices (snd (update_transform r)) = []"
  "List.map_filter step_of (snd (update_transform r)) = []"
  "filter is_draw_call (snd (update_transform r)) = []"
  "foldl texture_effect st (snd (update_transform r)) = st"
  by (cases st; simp add: update_transform_def Let_def uploaded_matrices_def List.map_filter_def)+

lemma bind_planes_fields:
  "bind_planes (fst (update_transform r)) = bind_planes r"
  by (simp add: bind_planes_def update_transform_fields split: option.splits)

lemma drawable_update_transform: "drawable (fst (update_transform r)) = drawable r"
  by (simp add: drawable_def bind_planes_fields update_transform_fields)

lemma drawable_set:
  "drawable (set_position_Center r p) = drawable r"
  "drawable (set_position_TopLeft r p) = drawable r"
  "drawable (set_scale r s) = drawable r"
  by (simp_all add: drawable_def bind_planes_def set_position_Center_def
        set_position_TopLeft_def set_scale_def cong: option.case_cong)

text \<open>\<^verbatim>\<open>draw\<close> returns exactly when it dereferences no null pointer.\<close>

lemma draw_returns_iff: "(\<exists>res. draw gl shader r = Some res) \<longleftrightarrow> drawable r"
  by (auto simp: draw_def drawable_def case_prod_beta bind_planes_fields
        update_transform_fields split: option.splits)

lemma bind_planes_calls:
  assumes "bind_planes r = Some calls"
  shows "uploaded_matrices calls = []"
    and "remdups_adj (List.map_filter step_of calls) = [BindTextures]"
    and "filter is_draw_call calls = []"
    and "\<not> recomputes calls"
  using assms
  by (auto simp: bind_planes_def Texture_bind_def uploaded_matrices_def List.map_filter_def
        recomputes_def split: if_splits option.splits)

lemma set_int_calls:
  assumes "set_int gl sp name v = (sp', calls)"
  shows "uploaded_matrices calls = []"
    and "List.map_filter step_of calls = [SetUniforms]"
    and "filter is_draw_call calls = []"
    and "\<not> recomputes calls"
    and "foldl texture_effect st calls = st"
  using assms
  by (cases st; auto simp: set_int_def get_uniform_location_def Let_def uploaded_matrices_def
        List.map_filter_def recomputes_def split: option.splits)+

lemma set_mat4_calls:
  assumes "set_mat4 gl sp name m = (sp', calls)"
  shows "uploaded_matrices calls = [m]"
    and "List.map_filter step_of calls = [SetUniforms]"
    and "filter is_draw_call calls = []"
    and "\<not> recomputes calls"
    and "foldl texture_effect st calls = st"
  using assms
  by (cases st; auto simp: set_mat4_def get_uniform_location_def Let_def uploaded_matrices_def
        List.map_filter_def recomputes_def split: option.splits)+

lemma Mesh_draw_calls:
  assumes "Mesh_draw m = Some calls"
  shows "uploaded_matrices calls = []"
    and "List.map_filter step_of calls = [DrawCall]"
    and "length (filter is_draw_call calls) = 1"
    and "\<not> recomputes calls"
    and "\<exists>a b n. calls = [glBindVertexArray a, glBindBuffer GL_ELEMENT_ARRAY_BUFFER b, glDrawElements n]"
  using assms
  by (auto simp: Mesh_draw_def uploaded_matrices_def List.map_filter_def recomputes_def
        split: option.splits)

lemma draw_SomeD:
  assumes "draw gl shader r = Some (shader', r', calls)"
  obtains c1 shader1 c2 c3 m c4 where
    "r' = fst (update_transform r)"
    "bind_planes r' = Some c1"
    "set_int gl shader ''u_texture'' 0 = (shader1, c2)"
    "set_mat4 gl shader1 ''u_Transform'' (transform r') = (shader', c3)"
    "mesh r' = Some m" "Mesh_draw m = Some c4"
    "calls = snd (update_transform r) @ c1 @ c2 @ c3 @ c4"
  using assms
  by (auto simp: draw_def split: prod.splits option.splits)

lemma draw_drawable:
  assumes "draw gl shader r = Some (shader', r', calls)"
  shows "drawable r'"
proof -
  from assms have "r' = fst (update_transform r)" by (rule draw_SomeD)
  moreover from assms have "drawable r" using draw_returns_iff by blast
  ultimately show ?thesis by (simp add: drawable_update_transform)
qed

lemma uploaded_matrices_append:
  "uploaded_matrices (xs @ ys) = uploaded_matrices xs @ uploaded_matrices ys"
  by (simp add: uploaded_matrices_def List.map_filter_def)

lemma uploaded_matrices_Cons:
  "uploaded_matrices (c # cs) =
     (case uploaded_matrix c of None \<Rightarrow> uploaded_matrices cs
      | Some m \<Rightarrow> m # uploaded_matrices cs)"
  "uploaded_matrices [] = []"
  by (auto simp: uploaded_matrices_def List.map_filter_def split: option.splits)

lemma recomputes_append: "recomputes (xs @ ys) = (recomputes xs \<or> recomputes ys)"
  by (simp add: recomputes_def)

text \<open>
  \<^verbatim>\<open>draw\<close> never clears the dirty flag, and it computes the matrix exactly when the flag
  is set.
\<close>

lemma draw_dirty:
  assumes "draw gl shader r = Some (shader', r', calls)"
  shows "dirty r' = dirty r" and "recomputes calls = dirty r"
proof -
  from assms obtain c1 shader1 c2 c3 m c4 where d:
    "r' = fst (update_transform r)"
    "bind_planes r' = Some c1"
    "set_int gl shader ''u_texture'' 0 = (shader1, c2)"
    "set_mat4 gl shader1 ''u_Transform'' (transform r') = (shader', c3)"
    "mesh r' = Some m" "Mesh_draw m = Some c4"
    "calls = snd (update_transform r) @ c1 @ c2 @ c3 @ c4"
    by (rule draw_SomeD)
  show "dirty r' = dirty r"
    by (simp add: d(1) update_transform_dirty)
  show "recomputes calls = dirty r"
    by (simp add: d(7) recomputes_append update_transform_recomputes
          bind_planes_calls(4) [OF d(2)] set_int_calls(4) [OF d(3)]
          set_mat4_calls(4) [OF d(4)] Mesh_draw_calls(4) [OF d(6)])
qed

lemma draw_uploads:
  assumes "draw gl shader r = Some (shader', r', calls)"
  shows "uploaded_matrices calls = [transform r']"
proof -
  from assms obtain c1 shader1 c2 c3 m c4 where d:
    "r' = fst (update_transform r)"
    "bind_planes r' = Some c1"
    "set_int gl shader ''u_texture'' 0 = (shader1, c2)"
    "set_mat4 gl shader1 ''u_Transform'' (transform r') = (shader', c3)"
    "mesh r' = Some m" "Mesh_draw m = Some c4"
    "calls = snd (update_transform r) @ c1 @ c2 @ c3 @ c4"
    by (rule draw_SomeD)
  show ?thesis
    by (simp add: d(7) uploaded_matrices_append update_transform_calls(1)
          bind_planes_calls(1) [OF d(2)] set_int_calls(1) [OF d(3)]
          set_mat4_calls(1) [OF d(4)] Mesh_draw_calls(1) [OF d(6)])
qed

lemma set_marks_dirty:
  "dirty (set_position_Center r p)" "dirty (set_position_TopLeft r p)" "dirty (set_scale r s)"
  by (simp_all add: set_position_Center_def set_position_TopLeft_def set_scale_def)

lemma renderable_step_dirty:
  assumes "renderable_step gl (shader, r) x = Some (shader', r')" and "dirty r \<or> is_set x"
  shows "dirty r'"
proof (cases x)
  case Draw
  with assms(1) obtain calls where "draw gl shader r = Some (shader', r', calls)"
    by (auto split: option.splits)
  from draw_dirty(1) [OF this] assms(2) Draw show ?thesis by simp
qed (use assms(1) in \<open>auto simp: set_marks_dirty\<close>)

lemma renderable_run_dirty:
  "renderable_run gl (shader, r) ops = Some (shader', r') \<Longrightarrow> dirty r \<or> list_ex is_set ops \<Longrightarrow>
   dirty r'"
proof (induction ops arbitrary: shader r)
  case Nil
  then show ?case by simp
next
  case (Cons x xs)
  from Cons.prems(1) obtain shader1 r1 where
    s: "renderable_step gl (shader, r) x = Some (shader1, r1)"
    and t: "renderable_run gl (shader1, r1) xs = Some (shader', r')"
    by (auto split: option.splits)
  show ?case
  proof (cases "dirty r \<or> is_set x")
    case True
    from renderable_step_dirty [OF s True] Cons.IH [OF t] show ?thesis by simp
  next
    case False
    with Cons.prems(2) have "list_ex is_set xs" by simp
    with Cons.IH [OF t] show ?thesis by simp
  qed
qed

text \<open>
  Claim C2, at the input where it fails: the renderable of \<^verbatim>\<open>main\<close> after \<^verbatim>\<open>set_scale\<close>,
  drawn twice with nothing in between. The first draw computes the matrix and leaves the
  dirty flag set; the second draw computes the matrix again.
\<close>

theorem C2_second_draw_recomputes:
  "Option.bind (draw driver_ok main_shaderProgram (main_square p))
     (\<lambda>(shader1, r1, calls1).
        map_option (\<lambda>(shader2, r2, calls2). (recomputes calls1, dirty r1, recomputes calls2))
          (draw driver_ok shader1 r1))
   = Some (True, True, True)"
proof -
  have dr: "drawable (main_square p)"
    by (simp add: drawable_def bind_planes_def Mesh_draw_def main_square_def main_quad_def)
  then obtain shader1 r1 calls1 where
    d1: "draw driver_ok main_shaderProgram (main_square p) = Some (shader1, r1, calls1)"
    using draw_returns_iff [of driver_ok main_shaderProgram "main_square p"] by auto
  from draw_drawable [OF d1] obtain shader2 r2 calls2 where
    d2: "draw driver_ok shader1 r1 = Some (shader2, r2, calls2)"
    using draw_returns_iff [of driver_ok shader1 r1] by auto
  have dirty0: "dirty (main_square p)" by (simp add: main_square_def)
  from draw_dirty [OF d1] draw_dirty [OF d2] dirty0 show ?thesis
    by (simp add: d1 d2)
qed

section \<open>The transform matrix\<close>

text \<open>
  Claim C4. Once a position or the scale of a renderable has been set, whatever is set or
  drawn afterwards, the one matrix that \<^verbatim>\<open>draw\<close> uploads is
  \<open>translate(mat4(1), position) * scale(mat4(1), vec3(scale.x, scale.y, 0))\<close> of the
  renderable's position and scale at that time, and it is the matrix the renderable keeps.
\<close>

theorem C4_transform_translate_times_scale:
  assumes "renderable_run gl (shader, r) ops = Some (shader', r')"
    and "list_ex is_set ops"
    and "draw gl shader' r' = Some (shader'', r'', calls)"
  shows "uploaded_matrices calls =
           [mat4_times (glm_translate (glm_mat4 (Finite 1)) (position r'))
              (glm_scale (glm_mat4 (Finite 1))
                 (vec3 (vec2_x (scale r')) (vec2_y (scale r')) (Finite 0)))] \<and>
         transform r'' =
           mat4_times (glm_translate (glm_mat4 (Finite 1)) (position r'))
             (glm_scale (glm_mat4 (Finite 1))
                (vec3 (vec2_x (scale r')) (vec2_y (scale r')) (Finite 0)))"
proof -
  have dirty: "dirty r'"
    using renderable_run_dirty [OF assms(1)] assms(2) by simp
  have "r'' = fst (update_transform r')"
    using assms(3) by (rule draw_SomeD)
  then have "transform r'' =
      mat4_times (glm_translate (glm_mat4 (Finite 1)) (position r'))
        (glm_scale (glm_mat4 (Finite 1))
           (vec3 (vec2_x (scale r')) (vec2_y (scale r')) (Finite 0)))"
    using update_transform_transform [OF dirty] by simp
  with draw_uploads [OF assms(3)] show ?thesis by simp
qed

lemma main_transform:
  "mat4_times (glm_translate (glm_mat4 (Finite 1)) (vec3 (Finite 400) (Finite 300) (Finite 0)))
     (glm_scale (glm_mat4 (Finite 1)) (vec3 (Finite 200) (Finite 100) (Finite 0)))
   = mat4 (vec4 (Finite 200) (Finite 0) (Finite 0) (Finite 0))
          (vec4 (Finite 0) (Finite 100) (Finite 0) (Finite 0))
          (vec4 (Finite 0) (Finite 0) (Finite 0) (Finite 0))
          (vec4 (Finite 400) (Finite 300) (Finite 0) (Finite 1))"
  by code_simp

lemma main_square_drawable: "drawable (main_square p)"
  by (simp add: drawable_def bind_planes_def Mesh_draw_def main_square_def main_quad_def)

theorem C4_transform_translate_times_scale_witness:
  "list_ex is_set [SetPositionCenter (vec3 (Finite 400) (Finite 300) (Finite 0)), Draw] \<and>
   (case renderable_run driver_ok
           (main_shaderProgram, main_square (vec3 (Finite 0) (Finite 0) (Finite 0)))
           [SetPositionCenter (vec3 (Finite 400) (Finite 300) (Finite 0)), Draw] of
      None \<Rightarrow> False
    | Some (shader1, r1) \<Rightarrow>
        position r1 = vec3 (Finite 400) (Finite 300) (Finite 0) \<and>
        scale r1 = vec2 (Finite 200) (Finite 100) \<and>
        (case draw driver_ok shader1 r1 of
           None \<Rightarrow> False
         | Some (shader2, r2, calls) \<Rightarrow>
             uploaded_matrices calls =
               [mat4 (vec4 (Finite 200) (Finite 0) (Finite 0) (Finite 0))
                     (vec4 (Finite 0) (Finite 100) (Finite 0) (Finite 0))
                     (vec4 (Finite 0) (Finite 0) (Finite 0) (Finite 0))
                     (vec4 (Finite 400) (Finite 300) (Finite 0) (Finite 1))]))"
proof -
  let ?p = "vec3 (Finite 400) (Finite 300) (Finite 0)"
  let ?r0 = "main_square (vec3 (Finite 0) (Finite 0) (Finite 0))"
  let ?ops = "[SetPositionCenter ?p, Draw]"
  have "drawable (set_position_Center ?r0 ?p)"
    by (simp add: drawable_set main_square_drawable)
  then obtain shader1 r1 calls1 where
    d1: "draw driver_ok main_shaderProgram (set_position_Center ?r0 ?p) = Some (shader1, r1, calls1)"
    using draw_returns_iff [of driver_ok main_shaderProgram "set_position_Center ?r0 ?p"] by auto
  have run: "renderable_run driver_ok (main_shaderProgram, ?r0) ?ops = Some (shader1, r1)"
    by (simp add: d1)
  have r1: "r1 = fst (update_transform (set_position_Center ?r0 ?p))"
    using d1 by (rule draw_SomeD)
  have pos: "position r1 = ?p" and sc: "scale r1 = vec2 (Finite 200) (Finite 100)"
    by (simp_all add: r1 update_transform_fields set_position_Center_def main_square_def)
  from draw_drawable [OF d1] obtain shader2 r2 calls2 where
    d2: "draw driver_ok shader1 r1 = Some (shader2, r2, calls2)"
    using draw_returns_iff [of driver_ok shader1 r1] by auto
  have s: "list_ex is_set ?ops" by simp
  from C4_transform_translate_times_scale [OF run s d2]
  have "uploaded_matrices calls2 =
          [mat4 (vec4 (Finite 200) (Finite 0) (Finite 0) (Finite 0))
                (vec4 (Finite 0) (Finite 100) (Finite 0) (Finite 0))
                (vec4 (Finite 0) (Finite 0) (Finite 0) (Finite 0))
                (vec4 (Finite 400) (Finite 300) (Finite 0) (Finite 1))]"
    by (simp add: pos sc main_transform)
  with s pos sc show ?thesis
    unfolding run by (simp add: d2)
qed

section \<open>The texture planes of a renderable\<close>

lemma renderable_step_textures:
  assumes "renderable_step gl (shader, r) x = Some (shader', r')"
  shows "format r' = format r \<and> texture_y r' = texture_y r \<and> texture_u r' = texture_u r \<and>
         texture_v r' = texture_v r"
proof (cases x)
  case Draw
  with assms obtain calls where "draw gl shader r = Some (shader', r', calls)"
    by (auto split: option.splits)
  then have "r' = fst (update_transform r)" by (rule draw_SomeD)
  then show ?thesis by (simp add: update_transform_fields)
qed (use assms in \<open>auto simp: set_position_Center_def set_position_TopLeft_def set_scale_def\<close>)

lemma renderable_run_textures:
  "renderable_run gl (shader, r) ops = Some (shader', r') \<Longrightarrow>
   format r' = format r \<and> texture_y r' = texture_y r \<and> texture_u r' = texture_u r \<and>
   texture_v r' = texture_v r"
proof (induction ops arbitrary: shader r)
  case Nil
  then show ?case by simp
next
  case (Cons x xs)
  from Cons.prems obtain shader1 r1 where
    s: "renderable_step gl (shader, r) x = Some (shader1, r1)"
    and t: "renderable_run gl (shader1, r1) xs = Some (shader', r')"
    by (auto split: option.splits)
  from renderable_step_textures [OF s] Cons.IH [OF t] show ?case by simp
qed

lemma filter_is_draw_call_empty: "filter is_draw_call xs = [] \<Longrightarrow> \<forall>c \<in> set xs. \<not> is_draw_call c"
  by (simp add: filter_empty_conv)

text \<open>The texture calls of \<^verbatim>\<open>draw\<close> are those of its plane binding.\<close>

lemma update_transform_texture_calls: "filter is_texture_call (snd (update_transform r)) = []"
  by (simp add: update_transform_def Let_def)

lemma bind_planes_texture_calls:
  "bind_planes r = Some calls \<Longrightarrow> filter is_texture_call calls = calls"
  by (auto simp: bind_planes_def Texture_bind_def split: if_splits option.splits)

lemma set_int_texture_calls:
  "set_int gl sp name v = (sp', calls) \<Longrightarrow> filter is_texture_call calls = []"
  by (auto simp: set_int_def get_uniform_location_def Let_def split: option.splits)

lemma set_mat4_texture_calls:
  "set_mat4 gl sp name m = (sp', calls) \<Longrightarrow> filter is_texture_call calls = []"
  by (auto simp: set_mat4_def get_uniform_location_def Let_def split: option.splits)

text \<open>
  When \<^verbatim>\<open>draw\<close> issues its one \<^verbatim>\<open>glDrawElements\<close>, the texture units hold what the
  plane binding of \<^verbatim>\<open>draw\<close> has made of the texture state it started in; \<^verbatim>\<open>draw\<close> makes
  no other texture call, before or after the \<^verbatim>\<open>glDrawElements\<close>.
\<close>

lemma draw_units:
  assumes "draw gl shader r = Some (shader', r', calls)"
  shows "\<exists>planes. bind_planes r = Some planes \<and>
           units_at_draw st calls = snd (foldl texture_effect st planes) \<and>
           filter is_texture_call (takeWhile (\<lambda>c. \<not> is_draw_call c) calls) = planes \<and>
           filter is_texture_call calls = planes"
    and "length (filter is_draw_call calls) = 1"
proof -
  from assms obtain c1 shader1 c2 c3 m c4 where d:
    "r' = fst (update_transform r)"
    "bind_planes r' = Some c1"
    "set_int gl shader ''u_texture'' 0 = (shader1, c2)"
    "set_mat4 gl shader1 ''u_Transform'' (transform r') = (shader', c3)"
    "mesh r' = Some m" "Mesh_draw m = Some c4"
    "calls = snd (update_transform r) @ c1 @ c2 @ c3 @ c4"
    by (rule draw_SomeD)
  from Mesh_draw_calls(5) [OF d(6)] obtain a b n where
    c4: "c4 = [glBindVertexArray a, glBindBuffer GL_ELEMENT_ARRAY_BUFFER b, glDrawElements n]"
    by blast
  have planes: "bind_planes r = Some c1"
    using d(1,2) by (simp add: bind_planes_fields)
  let ?pre = "snd (update_transform r) @ c1 @ c2 @ c3"
  have nodraw: "filter is_draw_call ?pre = []"
    by (simp add: update_transform_calls(3) bind_planes_calls(3) [OF d(2)]
          set_int_calls(3) [OF d(3)] set_mat4_calls(3) [OF d(4)])
  have calls: "calls = ?pre @ c4" by (simp add: d(7))
  have tw: "takeWhile (\<lambda>c. \<not> is_draw_call c) calls =
          ?pre @ [glBindVertexArray a, glBindBuffer GL_ELEMENT_ARRAY_BUFFER b]"
    unfolding calls c4
    using filter_is_draw_call_empty [OF nodraw]
    by (subst takeWhile_append2) auto
  have u: "units_at_draw st calls = snd (foldl texture_effect st c1)"
    by (cases "foldl texture_effect st c1")
       (simp add: units_at_draw_def tw update_transform_calls(4)
          set_int_calls(5) [OF d(3)] set_mat4_calls(5) [OF d(4)])
  have pre: "filter is_texture_call ?pre = c1"
    by (simp add: update_transform_texture_calls bind_planes_texture_calls [OF d(2)]
          set_int_texture_calls [OF d(3)] set_mat4_texture_calls [OF d(4)])
  have t1: "filter is_texture_call (takeWhile (\<lambda>c. \<not> is_draw_call c) calls) = c1"
    unfolding tw using pre by simp
  have t2: "filter is_texture_call calls = c1"
    unfolding calls c4 using pre by simp
  from planes u t1 t2
  show "\<exists>planes. bind_planes r = Some planes \<and>
           units_at_draw st calls = snd (foldl texture_effect st planes) \<and>
           filter is_texture_call (takeWhile (\<lambda>c. \<not> is_draw_call c) calls) = planes \<and>
           filter is_texture_call calls = planes"
    by blast
  show "length (filter is_draw_call calls) = 1"
    unfolding calls using nodraw by (simp add: c4)
qed

text \<open>
  Claim C8. A renderable made by the one-texture constructor has a format other than
  \<^verbatim>\<open>GL_RED\<close> (the constructor exists for \<^verbatim>\<open>GL_RGBA\<close> and \<^verbatim>\<open>GL_RGB\<close> only) and, whatever is
  set or drawn afterwards, holds exactly that texture. Its \<^verbatim>\<open>draw\<close> makes exactly two
  texture calls, both before its one \<^verbatim>\<open>glDrawElements\<close>: it selects unit 0 and binds the
  texture. So, whichever unit was selected and whatever was bound before the \<^verbatim>\<open>draw\<close>,
  when \<^verbatim>\<open>glDrawElements\<close> is issued the texture is bound on unit 0 and units 1 and 2 hold
  what they held before. A renderable made by the three-texture constructor has format
  \<^verbatim>\<open>GL_RED\<close> and holds exactly the three planes. Its \<^verbatim>\<open>draw\<close> makes exactly six texture
  calls, all before its one \<^verbatim>\<open>glDrawElements\<close>: it selects unit 0 and binds Y, selects
  unit 1 and binds U, selects unit 2 and binds V. So, from any texture state, when
  \<^verbatim>\<open>glDrawElements\<close> is issued Y, U and V are bound on units 0, 1 and 2.
\<close>

theorem C8_texture_planes:
  "(Renderable_ctor fmt m (Some t) indet_position indet_scale = Some r \<and>
    renderable_run gl (shader, r) ops = Some (shader1, r1) \<and>
    draw gl shader1 r1 = Some (shader2, r2, calls) \<longrightarrow>
      (fmt = GL_RGBA \<or> fmt = GL_RGB) \<and> get_format r1 = fmt \<and> textures_held r1 = [t] \<and>
      filter is_texture_call calls = [glActiveTexture GL_TEXTURE0, glBindTexture (textureId t)] \<and>
      filter is_texture_call (takeWhile (\<lambda>c. \<not> is_draw_call c) calls) =
        [glActiveTexture GL_TEXTURE0, glBindTexture (textureId t)] \<and>
      units_at_draw (active, bound) calls = bound(GL_TEXTURE0 := Some (textureId t)) \<and>
      length (filter is_draw_call calls) = 1) \<and>
   (Renderable_ctor_yuv fmt m (Some ty) (Some tu) (Some tv) indet_position indet_scale = Some r \<and>
    renderable_run gl (shader, r) ops = Some (shader1, r1) \<and>
    draw gl shader1 r1 = Some (shader2, r2, calls) \<longrightarrow>
      fmt = GL_RED \<and> get_format r1 = fmt \<and> textures_held r1 = [ty, tu, tv] \<and>
      filter is_texture_call calls =
        [glActiveTexture GL_TEXTURE0, glBindTexture (textureId ty),
         glActiveTexture GL_TEXTURE1, glBindTexture (textureId tu),
         glActiveTexture GL_TEXTURE2, glBindTexture (textureId tv)] \<and>
      filter is_texture_call (takeWhile (\<lambda>c. \<not> is_draw_call c) calls) =
        [glActiveTexture GL_TEXTURE0, glBindTexture (textureId ty),
         glActiveTexture GL_TEXTURE1, glBindTexture (textureId tu),
         glActiveTexture GL_TEXTURE2, glBindTexture (textureId tv)] \<and>
      units_at_draw (active, bound) calls =
        bound(GL_TEXTURE0 := Some (textureId ty), GL_TEXTURE1 := Some (textureId tu),
              GL_TEXTURE2 := Some (textureId tv)) \<and>
      length (filter is_draw_call calls) = 1) \<and>
   ((\<exists>r. Renderable_ctor fmt m tex indet_position indet_scale = Some r)
      = (fmt = GL_RGBA \<or> fmt = GL_RGB)) \<and>
   ((\<exists>r. Renderable_ctor_yuv fmt m tex_y tex_u tex_v indet_position indet_scale = Some r)
      = (fmt = GL_RED))"
proof (intro conjI impI)
  assume a: "Renderable_ctor fmt m (Some t) indet_position indet_scale = Some r \<and>
    renderable_run gl (shader, r) ops = Some (shader1, r1) \<and>
    draw gl shader1 r1 = Some (shader2, r2, calls)"
  then have r: "format r = fmt" "fmt \<noteq> GL_RED" "texture_y r = Some t"
    "texture_u r = None" "texture_v r = None"
    by (auto simp: Renderable_ctor_def split: if_splits)
  from a renderable_run_textures [of gl shader r ops shader1 r1]
  have r1: "format r1 = fmt" "texture_y r1 = Some t" "texture_u r1 = None" "texture_v r1 = None"
    using r by simp_all
  from a draw_units(1) [of gl shader1 r1 shader2 r2 calls "(active, bound)"]
    draw_units(2) [of gl shader1 r1 shader2 r2 calls]
  have u: "units_at_draw (active, bound) calls
             = snd (foldl texture_effect (active, bound) (the (bind_planes r1)))"
    and t1: "filter is_texture_call (takeWhile (\<lambda>c. \<not> is_draw_call c) calls)
               = the (bind_planes r1)"
    and t2: "filter is_texture_call calls = the (bind_planes r1)"
    and one: "length (filter is_draw_call calls) = 1"
    by auto
  have planes: "bind_planes r1 = Some [glActiveTexture GL_TEXTURE0, glBindTexture (textureId t)]"
    using r1 r(2) by (simp add: bind_planes_def Texture_bind_def)
  show "fmt = GL_RGBA \<or> fmt = GL_RGB" using r(2) by (cases fmt) simp_all
  show "get_format r1 = fmt" by (simp add: get_format_def r1)
  show "textures_held r1 = [t]" by (simp add: textures_held_def List.map_filter_def r1)
  show "filter is_texture_call calls = [glActiveTexture GL_TEXTURE0, glBindTexture (textureId t)]"
    by (simp add: t2 planes)
  show "filter is_texture_call (takeWhile (\<lambda>c. \<not> is_draw_call c) calls) =
        [glActiveTexture GL_TEXTURE0, glBindTexture (textureId t)]"
    by (simp add: t1 planes)
  show "units_at_draw (active, bound) calls = bound(GL_TEXTURE0 := Some (textureId t))"
    by (simp add: u planes)
  show "length (filter is_draw_call calls) = 1" by (rule one)
next
  assume a: "Renderable_ctor_yuv fmt m (Some ty) (Some tu) (Some tv) indet_position indet_scale
      = Some r \<and>
    renderable_run gl (shader, r) ops = Some (shader1, r1) \<and>
    draw gl shader1 r1 = Some (shader2, r2, calls)"
  then have r: "format r = fmt" "fmt = GL_RED" "texture_y r = Some ty"
    "texture_u r = Some tu" "texture_v r = Some tv"
    by (auto simp: Renderable_ctor_yuv_def split: if_splits)
  from a renderable_run_textures [of gl shader r ops shader1 r1]
  have r1: "format r1 = fmt" "texture_y r1 = Some ty" "texture_u r1 = Some tu"
    "texture_v r1 = Some tv"
    using r by simp_all
  from a draw_units(1) [of gl shader1 r1 shader2 r2 calls "(active, bound)"]
    draw_units(2) [of gl shader1 r1 shader2 r2 calls]
  have u: "units_at_draw (active, bound) calls
             = snd (foldl texture_effect (active, bound) (the (bind_planes r1)))"
    and t1: "filter is_texture_call (takeWhile (\<lambda>c. \<not> is_draw_call c) calls)
               = the (bind_planes r1)"
    and t2: "filter is_texture_call calls = the (bind_planes r1)"
    and one: "length (filter is_draw_call calls) = 1"
    by auto
  have planes: "bind_planes r1 =
      Some [glActiveTexture GL_TEXTURE0, glBindTexture (textureId ty),
            glActiveTexture GL_TEXTURE1, glBindTexture (textureId tu),
            glActiveTexture GL_TEXTURE2, glBindTexture (textureId tv)]"
    using r1 r(2) by (simp add: bind_planes_def Texture_bind_def)
  show "fmt = GL_RED" by (rule r(2))
  show "get_format r1 = fmt" by (simp add: get_format_def r1)
  show "textures_held r1 = [ty, tu, tv]" by (simp add: textures_held_def List.map_filter_def r1)
  show "filter is_texture_call calls =
        [glActiveTexture GL_TEXTURE0, glBindTexture (textureId ty),
         glActiveTexture GL_TEXTURE1, glBindTexture (textureId tu),
         glActiveTexture GL_TEXTURE2, glBindTexture (textureId tv)]"
    by (simp add: t2 planes)
  show "filter is_texture_call (takeWhile (\<lambda>c. \<not> is_draw_call c) calls) =
        [glActiveTexture GL_TEXTURE0, glBindTexture (textureId ty),
         glActiveTexture GL_TEXTURE1, glBindTexture (textureId tu),
         glActiveTexture GL_TEXTURE2, glBindTexture (textureId tv)]"
    by (simp add: t1 planes)
  show "units_at_draw (active, bound) calls =
        bound(GL_TEXTURE0 := Some (textureId ty), GL_TEXTURE1 := Some (textureId tu),
              GL_TEXTURE2 := Some (textureId tv))"
    by (simp add: u planes)
  show "length (filter is_draw_call calls) = 1" by (rule one)
next
  show "(\<exists>r. Renderable_ctor fmt m tex indet_position indet_scale = Some r)
          = (fmt = GL_RGBA \<or> fmt = GL_RGB)"
    by (cases fmt) (simp_all add: Renderable_ctor_def)
next
  show "(\<exists>r. Renderable_ctor_yuv fmt m tex_y tex_u tex_v indet_position indet_scale = Some r)
          = (fmt = GL_RED)"
    by (simp add: Renderable_ctor_yuv_def)
qed

text \<open>
  The theorem at the renderable of \<^verbatim>\<open>main\<close> and at a planar one with textures 1, 2 and 3,
  each drawn when unit 2 is selected and the units hold the textures 7, 8 and 9.
\<close>

theorem C8_texture_planes_witness:
  "(case Renderable_ctor GL_RGBA (Some main_quad) (Some main_tex)
           (vec3 (Finite 0) (Finite 0) (Finite 0)) (vec2 (Finite 0) (Finite 0)) of
      None \<Rightarrow> False
    | Some r \<Rightarrow>
        (case renderable_run driver_ok (main_shaderProgram, r)
                [SetScale (vec2 (Finite 200) (Finite 100))] of
           None \<Rightarrow> False
         | Some (shader1, r1) \<Rightarrow>
             (case draw driver_ok shader1 r1 of
                None \<Rightarrow> False
              | Some (shader2, r2, calls) \<Rightarrow>
                  textures_held r1 = [main_tex] \<and>
                  filter is_texture_call calls = [glActiveTexture GL_TEXTURE0, glBindTexture 1] \<and>
                  map (units_at_draw
                         (GL_TEXTURE2,
                          (\<lambda>u. None)(GL_TEXTURE0 := Some 7, GL_TEXTURE1 := Some 8,
                                     GL_TEXTURE2 := Some 9)) calls)
                      [GL_TEXTURE0, GL_TEXTURE1, GL_TEXTURE2]
                    = [Some 1, Some 8, Some 9]))) \<and>
   (case Renderable_ctor_yuv GL_RED (Some main_quad) (Some main_tex)
           (Some (main_tex\<lparr>textureId := 2\<rparr>)) (Some (main_tex\<lparr>textureId := 3\<rparr>))
           (vec3 (Finite 0) (Finite 0) (Finite 0)) (vec2 (Finite 0) (Finite 0)) of
      None \<Rightarrow> False
    | Some r \<Rightarrow>
        (case renderable_run driver_ok (main_shaderProgram, r)
                [SetScale (vec2 (Finite 200) (Finite 100))] of
           None \<Rightarrow> False
         | Some (shader1, r1) \<Rightarrow>
             (case draw driver_ok shader1 r1 of
                None \<Rightarrow> False
              | Some (shader2, r2, calls) \<Rightarrow>
                  textures_held r1 =
                    [main_tex, main_tex\<lparr>textureId := 2\<rparr>, main_tex\<lparr>textureId := 3\<rparr>] \<and>
                  filter is_texture_call calls =
                    [glActiveTexture GL_TEXTURE0, glBindTexture 1,
                     glActiveTexture GL_TEXTURE1, glBindTexture 2,
                     glActiveTexture GL_TEXTURE2, glBindTexture 3] \<and>
                  map (units_at_draw
                         (GL_TEXTURE2,
                          (\<lambda>u. None)(GL_TEXTURE0 := Some 7, GL_TEXTURE1 := Some 8,
                                     GL_TEXTURE2 := Some 9)) calls)
                      [GL_TEXTURE0, GL_TEXTURE1, GL_TEXTURE2]
                    = [Some 1, Some 2, Some 3])))"
proof -
  let ?p = "vec3 (Finite 0) (Finite 0) (Finite 0)"
  let ?s = "vec2 (Finite 0) (Finite 0)"
  let ?ops = "[SetScale (vec2 (Finite 200) (Finite 100))]"
  let ?b = "(\<lambda>u. None)(GL_TEXTURE0 := Some (7::GLuint), GL_TEXTURE1 := Some 8,
                       GL_TEXTURE2 := Some 9)"
  obtain r where c: "Renderable_ctor GL_RGBA (Some main_quad) (Some main_tex) ?p ?s = Some r"
    by (simp add: Renderable_ctor_def)
  have "drawable r"
    using c by (auto simp: Renderable_ctor_def drawable_def bind_planes_def Mesh_draw_def
        main_quad_def)
  then have dr: "drawable (set_scale r (vec2 (Finite 200) (Finite 100)))"
    by (simp add: drawable_set)
  have run: "renderable_run driver_ok (main_shaderProgram, r) ?ops
               = Some (main_shaderProgram, set_scale r (vec2 (Finite 200) (Finite 100)))"
    by simp
  from dr obtain shader2 r2 calls where
    d: "draw driver_ok main_shaderProgram (set_scale r (vec2 (Finite 200) (Finite 100)))
          = Some (shader2, r2, calls)"
    using draw_returns_iff by (metis prod_cases3)
  have first: "textures_held (set_scale r (vec2 (Finite 200) (Finite 100))) = [main_tex] \<and>
      filter is_texture_call calls = [glActiveTexture GL_TEXTURE0, glBindTexture 1] \<and>
      units_at_draw (GL_TEXTURE2, ?b) calls = ?b(GL_TEXTURE0 := Some 1)"
    using C8_texture_planes [where fmt = GL_RGBA and m = "Some main_quad" and t = main_tex
        and indet_position = ?p and indet_scale = ?s and r = r and gl = driver_ok
        and shader = main_shaderProgram and ops = ?ops and ?shader1.0 = main_shaderProgram
        and ?r1.0 = "set_scale r (vec2 (Finite 200) (Finite 100))" and ?shader2.0 = shader2
        and ?r2.0 = r2 and calls = calls and active = GL_TEXTURE2 and bound = ?b] c run d
    by (simp add: main_tex_def)
  obtain y where cy: "Renderable_ctor_yuv GL_RED (Some main_quad) (Some main_tex)
           (Some (main_tex\<lparr>textureId := 2\<rparr>)) (Some (main_tex\<lparr>textureId := 3\<rparr>)) ?p ?s = Some y"
    by (simp add: Renderable_ctor_yuv_def)
  have "drawable y"
    using cy by (auto simp: Renderable_ctor_yuv_def drawable_def bind_planes_def Mesh_draw_def
        main_quad_def)
  then have dy: "drawable (set_scale y (vec2 (Finite 200) (Finite 100)))"
    by (simp add: drawable_set)
  have runy: "renderable_run driver_ok (main_shaderProgram, y) ?ops
               = Some (main_shaderProgram, set_scale y (vec2 (Finite 200) (Finite 100)))"
    by simp
  from dy obtain shader3 r3 calls3 where
    d3: "draw driver_ok main_shaderProgram (set_scale y (vec2 (Finite 200) (Finite 100)))
          = Some (shader3, r3, calls3)"
    using draw_returns_iff by (metis prod_cases3)
  have second: "textures_held (set_scale y (vec2 (Finite 200) (Finite 100)))
        = [main_tex, main_tex\<lparr>textureId := 2\<rparr>, main_tex\<lparr>textureId := 3\<rparr>] \<and>
      filter is_texture_call calls3 =
        [glActiveTexture GL_TEXTURE0, glBindTexture 1,
         glActiveTexture GL_TEXTURE1, glBindTexture 2,
         glActiveTexture GL_TEXTURE2, glBindTexture 3] \<and>
      units_at_draw (GL_TEXTURE2, ?b) calls3 =
        ?b(GL_TEXTURE0 := Some 1, GL_TEXTURE1 := Some 2, GL_TEXTURE2 := Some 3)"
    using C8_texture_planes [where fmt = GL_RED and m = "Some main_quad" and ty = main_tex
        and tu = "main_tex\<lparr>textureId := 2\<rparr>" and tv = "main_tex\<lparr>textureId := 3\<rparr>"
        and indet_position = ?p and indet_scale = ?s and r = y and gl = driver_ok
        and shader = main_shaderProgram and ops = ?ops and ?shader1.0 = main_shaderProgram
        and ?r1.0 = "set_scale y (vec2 (Finite 200) (Finite 100))" and ?shader2.0 = shader3
        and ?r2.0 = r3 and calls = calls3 and active = GL_TEXTURE2 and bound = ?b] cy runy d3
    by (simp add: main_tex_def)
  show ?thesis
    unfolding c cy option.case run runy prod.case d d3
    using first second by simp
qed

section \<open>The order of calls in a frame\<close>

lemma map_filter_step_of_append:
  "List.map_filter step_of (xs @ ys) = List.map_filter step_of xs @ List.map_filter step_of ys"
  by (simp add: List.map_filter_def)

lemma bind_planes_steps:
  assumes "bind_planes r = Some calls"
  shows "List.map_filter step_of calls = [BindTextures, BindTextures] \<or>
         List.map_filter step_of calls =
           [BindTextures, BindTextures, BindTextures, BindTextures, BindTextures, BindTextures]"
  using assms
  by (auto simp: bind_planes_def Texture_bind_def List.map_filter_def
        split: if_splits option.splits)

lemma draw_steps:
  assumes "draw gl shader r = Some (shader', r', calls)"
  shows "remdups_adj (SetUniforms # List.map_filter step_of calls @ [SwapBuffers])
           = [SetUniforms, BindTextures, SetUniforms, DrawCall, SwapBuffers]"
proof -
  from assms obtain c1 shader1 c2 c3 m c4 where d:
    "r' = fst (update_transform r)"
    "bind_planes r' = Some c1"
    "set_int gl shader ''u_texture'' 0 = (shader1, c2)"
    "set_mat4 gl shader1 ''u_Transform'' (transform r') = (shader', c3)"
    "mesh r' = Some m" "Mesh_draw m = Some c4"
    "calls = snd (update_transform r) @ c1 @ c2 @ c3 @ c4"
    by (rule draw_SomeD)
  have "List.map_filter step_of calls =
          List.map_filter step_of c1 @ [SetUniforms, SetUniforms, DrawCall]"
    by (simp add: d(7) map_filter_step_of_append update_transform_calls(2)
          set_int_calls(2) [OF d(3)] set_mat4_calls(2) [OF d(4)] Mesh_draw_calls(2) [OF d(6)])
  with bind_planes_steps [OF d(2)] show ?thesis by auto
qed

lemma frame_SomeD:
  assumes "frame gl w (prog, square) = Some ((prog', square'), calls)"
  obtains prog1 c2 c3 where
    "set_mat4 gl prog ''u_Projection'' projectionMatrix = (prog1, c2)"
    "draw gl prog1
       (set_position_Center square
          (vec3 (fdiv (f32_of_int main_window_width) (Finite 2))
                (fdiv (f32_of_int main_window_height) (Finite 2)) (Finite 0)))
       = Some (prog', square', c3)"
    "calls = [glViewport 0 0 main_window_width main_window_height, glClear,
              glUseProgram (shaderProgram prog)] @ c2 @ c3 @ [glfwSwapBuffers]"
  using assms
  by (auto simp: frame_def Let_def use_def swap_buffers_def split: prod.splits option.splits)

lemma frame_steps:
  assumes "frame gl w st = Some (st', calls)"
  shows "steps calls =
           [Clear, UseShader, SetUniforms, BindTextures, SetUniforms, DrawCall, SwapBuffers]"
    and "length (filter is_draw_call calls) = 1"
    and "drawable (snd st')"
    and "uploaded_matrices calls = [projectionMatrix, transform (snd st')]"
proof -
  obtain prog square where st: "st = (prog, square)" by (cases st)
  obtain prog' square' where st': "st' = (prog', square')" by (cases st')
  from assms [unfolded st st'] obtain prog1 c2 c3 where f:
    "set_mat4 gl prog ''u_Projection'' projectionMatrix = (prog1, c2)"
    "draw gl prog1
       (set_position_Center square
          (vec3 (fdiv (f32_of_int main_window_width) (Finite 2))
                (fdiv (f32_of_int main_window_height) (Finite 2)) (Finite 0)))
       = Some (prog', square', c3)"
    "calls = [glViewport 0 0 main_window_width main_window_height, glClear,
              glUseProgram (shaderProgram prog)] @ c2 @ c3 @ [glfwSwapBuffers]"
    by (rule frame_SomeD)
  have "List.map_filter step_of calls =
          [Clear, UseShader, SetUniforms] @ List.map_filter step_of c3 @ [SwapBuffers]"
    by (simp add: f(3) map_filter_step_of_append set_mat4_calls(2) [OF f(1)])
  then show "steps calls =
           [Clear, UseShader, SetUniforms, BindTextures, SetUniforms, DrawCall, SwapBuffers]"
    using draw_steps [OF f(2)] by (simp add: steps_def)
  show "length (filter is_draw_call calls) = 1"
    using draw_units(2) [OF f(2)] set_mat4_calls(3) [OF f(1)] by (simp add: f(3))
  show "drawable (snd st')"
    using draw_drawable [OF f(2)] by (simp add: st')
  show "uploaded_matrices calls = [projectionMatrix, transform (snd st')]"
    by (simp add: f(3) uploaded_matrices_Cons uploaded_matrices_append
          set_mat4_calls(1) [OF f(1)] draw_uploads [OF f(2)] st')
qed

lemma frame_returns:
  assumes "drawable (snd st)"
  shows "\<exists>res. frame gl w st = Some res"
proof -
  obtain prog square where st: "st = (prog, square)" by (cases st)
  obtain prog1 c2 where m: "set_mat4 gl prog ''u_Projection'' projectionMatrix = (prog1, c2)"
    by (cases "set_mat4 gl prog ''u_Projection'' projectionMatrix")
  let ?sq = "set_position_Center square
          (vec3 (fdiv (f32_of_int main_window_width) (Finite 2))
                (fdiv (f32_of_int main_window_height) (Finite 2)) (Finite 0))"
  from assms st have "drawable ?sq" by (simp add: drawable_set)
  then obtain res where "draw gl prog1 ?sq = Some res"
    using draw_returns_iff by blast
  then show ?thesis
    by (cases res) (simp add: frame_def st m Let_def)
qed

text \<open>
  A lookup of a uniform location answers the cached or the queried location, makes the
  query only for a name not yet cached, and leaves a program that answers every name as
  before and has the name cached.
\<close>

lemma location_of_eq:
  "location_of gl sp name =
     (case m_UniformLocationCache sp name of
        None \<Rightarrow> uniformLocation gl (shaderProgram sp) name
      | Some location \<Rightarrow> location)"
  by (simp add: location_of_def get_uniform_location_def Let_def split: option.splits)

lemma location_query_eq:
  "location_query gl sp name =
     (if m_UniformLocationCache sp name = None
      then [glGetUniformLocation (shaderProgram sp) name] else [])"
  by (simp add: location_query_def get_uniform_location_def Let_def split: option.splits)

lemma after_lookup:
  "shaderProgram (fst (snd (get_uniform_location gl sp name))) = shaderProgram sp"
  "location_of gl (fst (snd (get_uniform_location gl sp name))) n = location_of gl sp n"
  "location_query gl (fst (snd (get_uniform_location gl sp name))) n =
     (if n = name then [] else location_query gl sp n)"
  by (auto simp: location_of_eq location_query_eq get_uniform_location_def Let_def
        split: option.splits)

lemma set_mat4_eq:
  "set_mat4 gl sp name m =
     (fst (snd (get_uniform_location gl sp name)),
      location_query gl sp name @ [glUniformMatrix4fv (location_of gl sp name) m])"
  by (simp add: set_mat4_def location_of_def location_query_def split: prod.splits)

lemma set_int_eq:
  "set_int gl sp name v =
     (fst (snd (get_uniform_location gl sp name)),
      location_query gl sp name @ [glUniform1i (location_of gl sp name) v])"
  by (simp add: set_int_def location_of_def location_query_def split: prod.splits)

text \<open>
  A frame on a renderable whose pointers are not null: its calls, all of them and in
  their order, and what it leaves of the program and the renderable.
\<close>

lemma frame_eq:
  assumes "texture_y square = Some ty"
    and "format square = GL_RED \<longrightarrow> texture_u square = Some tu \<and> texture_v square = Some tv"
    and "mesh square = Some m" and "vertex_array m = Some va" and "index_buffer m = Some ib"
  shows "\<exists>prog' square'.
    frame gl w (prog, square) =
      Some ((prog', square'),
        [glViewport 0 0 main_window_width main_window_height, glClear,
         glUseProgram (shaderProgram prog)]
        @ location_query gl prog ''u_Projection''
        @ [glUniformMatrix4fv (location_of gl prog ''u_Projection'') projectionMatrix,
           call_glm_translate (glm_mat4 (Finite 1))
             (vec3 (fdiv (f32_of_int main_window_width) (Finite 2))
                   (fdiv (f32_of_int main_window_height) (Finite 2)) (Finite 0)),
           call_glm_scale (glm_mat4 (Finite 1))
             (vec3 (vec2_x (scale square)) (vec2_y (scale square)) (Finite 0)),
           call_mat4_times
             (glm_translate (glm_mat4 (Finite 1))
                (vec3 (fdiv (f32_of_int main_window_width) (Finite 2))
                      (fdiv (f32_of_int main_window_height) (Finite 2)) (Finite 0)))
             (glm_scale (glm_mat4 (Finite 1))
                (vec3 (vec2_x (scale square)) (vec2_y (scale square)) (Finite 0))),
           glActiveTexture GL_TEXTURE0, glBindTexture (textureId ty)]
        @ (if format square = GL_RED
           then [glActiveTexture GL_TEXTURE1, glBindTexture (textureId tu),
                 glActiveTexture GL_TEXTURE2, glBindTexture (textureId tv)]
           else [])
        @ location_query gl prog ''u_texture''
        @ [glUniform1i (location_of gl prog ''u_texture'') 0]
        @ location_query gl prog ''u_Transform''
        @ [glUniformMatrix4fv (location_of gl prog ''u_Transform'')
             (mat4_times
                (glm_translate (glm_mat4 (Finite 1))
                   (vec3 (fdiv (f32_of_int main_window_width) (Finite 2))
                         (fdiv (f32_of_int main_window_height) (Finite 2)) (Finite 0)))
                (glm_scale (glm_mat4 (Finite 1))
                   (vec3 (vec2_x (scale square)) (vec2_y (scale square)) (Finite 0)))),
           glBindVertexArray (vao va),
           glBindBuffer GL_ELEMENT_ARRAY_BUFFER (ibo ib),
           glDrawElements (get_count ib),
           glfwSwapBuffers]) \<and>
    shaderProgram prog' = shaderProgram prog \<and>
    (\<forall>name. location_of gl prog' name = location_of gl prog name) \<and>
    location_query gl prog' ''u_Projection'' = [] \<and>
    location_query gl prog' ''u_texture'' = [] \<and>
    location_query gl prog' ''u_Transform'' = [] \<and>
    format square' = format square \<and> texture_y square' = texture_y square \<and>
    texture_u square' = texture_u square \<and> texture_v square' = texture_v square \<and>
    mesh square' = mesh square \<and> scale square' = scale square"
proof -
  let ?center = "vec3 (fdiv (f32_of_int main_window_width) (Finite 2))
                      (fdiv (f32_of_int main_window_height) (Finite 2)) (Finite 0)"
  let ?extent = "vec3 (vec2_x (scale square)) (vec2_y (scale square)) (Finite 0)"
  let ?T = "mat4_times (glm_translate (glm_mat4 (Finite 1)) ?center)
              (glm_scale (glm_mat4 (Finite 1)) ?extent)"
  let ?sq1 = "set_position_Center square ?center"
  let ?sq2 = "?sq1\<lparr>transform := ?T\<rparr>"
  define p1 where "p1 = fst (snd (get_uniform_location gl prog ''u_Projection''))"
  define p2 where "p2 = fst (snd (get_uniform_location gl p1 ''u_texture''))"
  define p3 where "p3 = fst (snd (get_uniform_location gl p2 ''u_Transform''))"
  have ut: "update_transform ?sq1 =
      (?sq2, [call_glm_translate (glm_mat4 (Finite 1)) ?center,
              call_glm_scale (glm_mat4 (Finite 1)) ?extent,
              call_mat4_times (glm_translate (glm_mat4 (Finite 1)) ?center)
                (glm_scale (glm_mat4 (Finite 1)) ?extent)])"
    by (simp add: update_transform_def set_position_Center_def Let_def)
  have bp: "bind_planes ?sq2 =
      Some ([glActiveTexture GL_TEXTURE0, glBindTexture (textureId ty)]
            @ (if format square = GL_RED
               then [glActiveTexture GL_TEXTURE1, glBindTexture (textureId tu),
                     glActiveTexture GL_TEXTURE2, glBindTexture (textureId tv)]
               else []))"
    using assms(1,2) by (simp add: bind_planes_def Texture_bind_def set_position_Center_def)
  have ms: "mesh ?sq2 = Some m" using assms(3) by (simp add: set_position_Center_def)
  have md: "Mesh_draw m =
      Some [glBindVertexArray (vao va), glBindBuffer GL_ELEMENT_ARRAY_BUFFER (ibo ib),
            glDrawElements (get_count ib)]"
    using assms(4,5) by (simp add: Mesh_draw_def)
  have tr: "transform ?sq2 = ?T" by simp
  have s1: "set_mat4 gl prog ''u_Projection'' projectionMatrix =
      (p1, location_query gl prog ''u_Projection''
           @ [glUniformMatrix4fv (location_of gl prog ''u_Projection'') projectionMatrix])"
    by (simp only: set_mat4_eq p1_def)
  have s2: "set_int gl p1 ''u_texture'' 0 =
      (p2, location_query gl prog ''u_texture''
           @ [glUniform1i (location_of gl prog ''u_texture'') 0])"
    by (simp add: set_int_eq p2_def p1_def after_lookup)
  have s3: "set_mat4 gl p2 ''u_Transform'' ?T =
      (p3, location_query gl prog ''u_Transform''
           @ [glUniformMatrix4fv (location_of gl prog ''u_Transform'') ?T])"
    by (simp add: set_mat4_eq p3_def p2_def p1_def after_lookup)
  have d: "draw gl p1 ?sq1 =
      Some (p3, ?sq2,
        [call_glm_translate (glm_mat4 (Finite 1)) ?center,
         call_glm_scale (glm_mat4 (Finite 1)) ?extent,
         call_mat4_times (glm_translate (glm_mat4 (Finite 1)) ?center)
           (glm_scale (glm_mat4 (Finite 1)) ?extent)]
        @ ([glActiveTexture GL_TEXTURE0, glBindTexture (textureId ty)]
            @ (if format square = GL_RED
               then [glActiveTexture GL_TEXTURE1, glBindTexture (textureId tu),
                     glActiveTexture GL_TEXTURE2, glBindTexture (textureId tv)]
               else []))
        @ (location_query gl prog ''u_texture''
           @ [glUniform1i (location_of gl prog ''u_texture'') 0])
        @ (location_query gl prog ''u_Transform''
           @ [glUniformMatrix4fv (location_of gl prog ''u_Transform'') ?T])
        @ [glBindVertexArray (vao va), glBindBuffer GL_ELEMENT_ARRAY_BUFFER (ibo ib),
           glDrawElements (get_count ib)])"
    unfolding draw_def ut prod.case bp option.case s2 tr s3 ms md by (rule refl)
  have f: "frame gl w (prog, square) =
      Some ((p3, ?sq2),
        ([glViewport 0 0 main_window_width main_window_height, glClear]
           @ [glUseProgram (shaderProgram prog)])
        @ (location_query gl prog ''u_Projection''
           @ [glUniformMatrix4fv (location_of gl prog ''u_Projection'') projectionMatrix])
        @ ([call_glm_translate (glm_mat4 (Finite 1)) ?center,
         call_glm_scale (glm_mat4 (Finite 1)) ?extent,
         call_mat4_times (glm_translate (glm_mat4 (Finite 1)) ?center)
           (glm_scale (glm_mat4 (Finite 1)) ?extent)]
        @ ([glActiveTexture GL_TEXTURE0, glBindTexture (textureId ty)]
            @ (if format square = GL_RED
               then [glActiveTexture GL_TEXTURE1, glBindTexture (textureId tu),
                     glActiveTexture GL_TEXTURE2, glBindTexture (textureId tv)]
               else []))
        @ (location_query gl prog ''u_texture''
           @ [glUniform1i (location_of gl prog ''u_texture'') 0])
        @ (location_query gl prog ''u_Transform''
           @ [glUniformMatrix4fv (location_of gl prog ''u_Transform'') ?T])
        @ [glBindVertexArray (vao va), glBindBuffer GL_ELEMENT_ARRAY_BUFFER (ibo ib),
           glDrawElements (get_count ib)])
        @ [glfwSwapBuffers])"
    unfolding frame_def prod.case Let_def s1 d option.case use_def swap_buffers_def
    by (rule refl)
  have i1: "shaderProgram p3 = shaderProgram prog"
    by (simp add: p3_def p2_def p1_def after_lookup)
  have i2: "\<forall>name. location_of gl p3 name = location_of gl prog name"
    by (simp add: p3_def p2_def p1_def after_lookup)
  have i3: "location_query gl p3 ''u_Projection'' = []"
    "location_query gl p3 ''u_texture'' = []"
    "location_query gl p3 ''u_Transform'' = []"
    by (simp_all add: p3_def p2_def p1_def after_lookup)
  have i4: "format ?sq2 = format square" "texture_y ?sq2 = texture_y square"
    "texture_u ?sq2 = texture_u square" "texture_v ?sq2 = texture_v square"
    "mesh ?sq2 = mesh square" "scale ?sq2 = scale square"
    by (simp_all add: set_position_Center_def)
  from f i1 i2 i3 i4 show ?thesis
    by (intro exI [of _ p3] exI [of _ ?sq2]) (simp only: append_assoc append_Cons append_Nil simp_thms)
qed

text \<open>A loop whose every frame makes the same calls and keeps what makes it do so.\<close>

lemma render_loop_replicate:
  assumes "\<And>st. P st \<Longrightarrow> \<exists>st'. frame gl w st = Some (st', calls) \<and> P st'"
    and "P st"
  shows "map_option snd (render_loop gl w n st) = Some (replicate n calls)"
  using assms(2)
proof (induction n arbitrary: st)
  case 0
  then show ?case by simp
next
  case (Suc n)
  from assms(1) [OF Suc.prems] obtain st1 where
    f: "frame gl w st = Some (st1, calls)" and i: "P st1"
    by blast
  from Suc.IH [OF i] obtain res where
    l: "render_loop gl w n st1 = Some res" and r: "snd res = replicate n calls"
    by auto
  show ?case
    by (cases res) (use f l r in simp)
qed

text \<open>
  Claim C7, as amended. Every iteration of the render loop on a renderable whose pointers
  are not null makes exactly these calls, each once and in this order: it sets the
  viewport, clears the framebuffer, activates the shader program, sets the projection
  uniform, computes the transform matrix, binds the texture on unit 0 (for \<^verbatim>\<open>GL_RED\<close>
  also the planes on units 1 and 2), sets the sampler uniform and then the transform
  uniform, binds the vertex array and the index buffer, issues one draw call, and swaps
  the buffers. The only other calls are the \<^verbatim>\<open>glGetUniformLocation\<close> queries of the first
  iteration, each right before the uniform it serves is set, and each made only if the
  name is not cached yet; every later iteration makes none. The loop performs every
  iteration asked of it.
\<close>

theorem C7_frame_order_amended:
  "location_of gl prog name =
     (case m_UniformLocationCache prog name of
        None \<Rightarrow> uniformLocation gl (shaderProgram prog) name
      | Some location \<Rightarrow> location) \<and>
   location_query gl prog name =
     (if m_UniformLocationCache prog name = None
      then [glGetUniformLocation (shaderProgram prog) name] else []) \<and>
   (texture_y square = Some ty \<and>
    (format square = GL_RED \<longrightarrow> texture_u square = Some tu \<and> texture_v square = Some tv) \<and>
    mesh square = Some m \<and> vertex_array m = Some va \<and> index_buffer m = Some ib \<longrightarrow>
      (let center = vec3 (fdiv (f32_of_int main_window_width) (Finite 2))
                         (fdiv (f32_of_int main_window_height) (Finite 2)) (Finite 0);
           extent = vec3 (vec2_x (scale square)) (vec2_y (scale square)) (Finite 0);
           transMatrix = glm_translate (glm_mat4 (Finite 1)) center;
           scaleMatrix = glm_scale (glm_mat4 (Finite 1)) extent;
           frame_calls = (\<lambda>query.
             [glViewport 0 0 main_window_width main_window_height, glClear,
              glUseProgram (shaderProgram prog)]
             @ query ''u_Projection''
             @ [glUniformMatrix4fv (location_of gl prog ''u_Projection'') projectionMatrix,
                call_glm_translate (glm_mat4 (Finite 1)) center,
                call_glm_scale (glm_mat4 (Finite 1)) extent,
                call_mat4_times transMatrix scaleMatrix,
                glActiveTexture GL_TEXTURE0, glBindTexture (textureId ty)]
             @ (if format square = GL_RED
                then [glActiveTexture GL_TEXTURE1, glBindTexture (textureId tu),
                      glActiveTexture GL_TEXTURE2, glBindTexture (textureId tv)]
                else [])
             @ query ''u_texture''
             @ [glUniform1i (location_of gl prog ''u_texture'') 0]
             @ query ''u_Transform''
             @ [glUniformMatrix4fv (location_of gl prog ''u_Transform'')
                  (mat4_times transMatrix scaleMatrix),
                glBindVertexArray (vao va),
                glBindBuffer GL_ELEMENT_ARRAY_BUFFER (ibo ib),
                glDrawElements (get_count ib),
                glfwSwapBuffers])
       in map_option snd (frame gl w (prog, square))
            = Some (frame_calls (location_query gl prog)) \<and>
          map_option snd (render_loop gl w (Suc n) (prog, square))
            = Some (frame_calls (location_query gl prog)
                    # replicate n (frame_calls (\<lambda>name. [])))))"
proof (intro conjI impI)
  show "location_of gl prog name =
     (case m_UniformLocationCache prog name of
        None \<Rightarrow> uniformLocation gl (shaderProgram prog) name
      | Some location \<Rightarrow> location)"
    by (rule location_of_eq)
  show "location_query gl prog name =
     (if m_UniformLocationCache prog name = None
      then [glGetUniformLocation (shaderProgram prog) name] else [])"
    by (rule location_query_eq)
next
  assume h: "texture_y square = Some ty \<and>
    (format square = GL_RED \<longrightarrow> texture_u square = Some tu \<and> texture_v square = Some tv) \<and>
    mesh square = Some m \<and> vertex_array m = Some va \<and> index_buffer m = Some ib"
  define center where "center = vec3 (fdiv (f32_of_int main_window_width) (Finite 2))
                         (fdiv (f32_of_int main_window_height) (Finite 2)) (Finite 0)"
  define extent where "extent = vec3 (vec2_x (scale square)) (vec2_y (scale square)) (Finite 0)"
  define frame_calls where "frame_calls = (\<lambda>query.
             [glViewport 0 0 main_window_width main_window_height, glClear,
              glUseProgram (shaderProgram prog)]
             @ query ''u_Projection''
             @ [glUniformMatrix4fv (location_of gl prog ''u_Projection'') projectionMatrix,
                call_glm_translate (glm_mat4 (Finite 1)) center,
                call_glm_scale (glm_mat4 (Finite 1)) extent,
                call_mat4_times (glm_translate (glm_mat4 (Finite 1)) center)
                  (glm_scale (glm_mat4 (Finite 1)) extent),
                glActiveTexture GL_TEXTURE0, glBindTexture (textureId ty)]
             @ (if format square = GL_RED
                then [glActiveTexture GL_TEXTURE1, glBindTexture (textureId tu),
                      glActiveTexture GL_TEXTURE2, glBindTexture (textureId tv)]
                else [])
             @ query ''u_texture''
             @ [glUniform1i (location_of gl prog ''u_texture'') 0]
             @ query ''u_Transform''
             @ [glUniformMatrix4fv (location_of gl prog ''u_Transform'')
                  (mat4_times (glm_translate (glm_mat4 (Finite 1)) center)
                     (glm_scale (glm_mat4 (Finite 1)) extent)),
                glBindVertexArray (vao va),
                glBindBuffer GL_ELEMENT_ARRAY_BUFFER (ibo ib),
                glDrawElements (get_count ib),
                glfwSwapBuffers])"
  define P where "P = (\<lambda>st :: ShaderProgram \<times> Renderable.
      shaderProgram (fst st) = shaderProgram prog \<and>
      (\<forall>name. location_of gl (fst st) name = location_of gl prog name) \<and>
      location_query gl (fst st) ''u_Projection'' = [] \<and>
      location_query gl (fst st) ''u_texture'' = [] \<and>
      location_query gl (fst st) ''u_Transform'' = [] \<and>
      format (snd st) = format square \<and> texture_y (snd st) = texture_y square \<and>
      texture_u (snd st) = texture_u square \<and> texture_v (snd st) = texture_v square \<and>
      mesh (snd st) = mesh square \<and> scale (snd st) = scale square)"
  from h have h1: "texture_y square = Some ty"
    and h2: "format square = GL_RED \<longrightarrow> texture_u square = Some tu \<and> texture_v square = Some tv"
    and h3: "mesh square = Some m" and h4: "vertex_array m = Some va"
    and h5: "index_buffer m = Some ib"
    by blast+
  have first: "\<exists>st'. frame gl w (prog, square)
                  = Some (st', frame_calls (location_query gl prog)) \<and> P st'"
    using frame_eq [OF h1 h2 h3 h4 h5, of gl w prog]
    unfolding frame_calls_def center_def extent_def P_def by auto
  have later: "\<exists>st'. frame gl w st = Some (st', frame_calls (\<lambda>name. [])) \<and> P st'"
    if p: "P st" for st
  proof -
    obtain sp sq where st: "st = (sp, sq)" by (cases st)
    from p have q: "shaderProgram sp = shaderProgram prog"
      "\<And>name. location_of gl sp name = location_of gl prog name"
      "location_query gl sp ''u_Projection'' = []"
      "location_query gl sp ''u_texture'' = []"
      "location_query gl sp ''u_Transform'' = []"
      "format sq = format square" "texture_y sq = texture_y square"
      "texture_u sq = texture_u square" "texture_v sq = texture_v square"
      "mesh sq = mesh square" "scale sq = scale square"
      unfolding P_def st by simp_all
    have g1: "texture_y sq = Some ty" using h1 q(7) by simp
    have g2: "format sq = GL_RED \<longrightarrow> texture_u sq = Some tu \<and> texture_v sq = Some tv"
      using h2 q(6,8,9) by simp
    have g3: "mesh sq = Some m" using h3 q(10) by simp
    from frame_eq [OF g1 g2 g3 h4 h5, of gl w sp]
    show ?thesis
      unfolding st frame_calls_def center_def extent_def P_def q by auto
  qed
  from first obtain st1 where
    f: "frame gl w (prog, square) = Some (st1, frame_calls (location_query gl prog))"
    and p1: "P st1"
    by blast
  from render_loop_replicate [of P gl w "frame_calls (\<lambda>name. [])" st1 n, OF later p1]
  obtain res where l: "render_loop gl w n st1 = Some res"
    and r: "snd res = replicate n (frame_calls (\<lambda>name. []))"
    by auto
  have a: "map_option snd (frame gl w (prog, square))
             = Some (frame_calls (location_query gl prog))"
    by (simp add: f)
  have b: "map_option snd (render_loop gl w (Suc n) (prog, square))
             = Some (frame_calls (location_query gl prog)
                     # replicate n (frame_calls (\<lambda>name. [])))"
    by (cases res) (use f l r in simp)
  from a b show "let center = vec3 (fdiv (f32_of_int main_window_width) (Finite 2))
                         (fdiv (f32_of_int main_window_height) (Finite 2)) (Finite 0);
           extent = vec3 (vec2_x (scale square)) (vec2_y (scale square)) (Finite 0);
           transMatrix = glm_translate (glm_mat4 (Finite 1)) center;
           scaleMatrix = glm_scale (glm_mat4 (Finite 1)) extent;
           frame_calls = (\<lambda>query.
             [glViewport 0 0 main_window_width main_window_height, glClear,
              glUseProgram (shaderProgram prog)]
             @ query ''u_Projection''
             @ [glUniformMatrix4fv (location_of gl prog ''u_Projection'') projectionMatrix,
                call_glm_translate (glm_mat4 (Finite 1)) center,
                call_glm_scale (glm_mat4 (Finite 1)) extent,
                call_mat4_times transMatrix scaleMatrix,
                glActiveTexture GL_TEXTURE0, glBindTexture (textureId ty)]
             @ (if format square = GL_RED
                then [glActiveTexture GL_TEXTURE1, glBindTexture (textureId tu),
                      glActiveTexture GL_TEXTURE2, glBindTexture (textureId tv)]
                else [])
             @ query ''u_texture''
             @ [glUniform1i (location_of gl prog ''u_texture'') 0]
             @ query ''u_Transform''
             @ [glUniformMatrix4fv (location_of gl prog ''u_Transform'')
                  (mat4_times transMatrix scaleMatrix),
                glBindVertexArray (vao va),
                glBindBuffer GL_ELEMENT_ARRAY_BUFFER (ibo ib),
                glDrawElements (get_count ib),
                glfwSwapBuffers])
       in map_option snd (frame gl w (prog, square))
            = Some (frame_calls (location_query gl prog)) \<and>
          map_option snd (render_loop gl w (Suc n) (prog, square))
            = Some (frame_calls (location_query gl prog)
                    # replicate n (frame_calls (\<lambda>name. [])))"
    unfolding Let_def frame_calls_def center_def extent_def by (rule conjI)
qed

lemma main_center:
  "fdiv (f32_of_int main_window_width) (Finite 2) = Finite 400"
  "fdiv (f32_of_int main_window_height) (Finite 2) = Finite 300"
  by code_simp+

text \<open>
  The theorem at the objects of \<^verbatim>\<open>main\<close>: the first two iterations of its render loop.
  The first queries the three uniform locations, the second finds them cached.
\<close>

theorem C7_frame_order_amended_witness:
  "texture_y (main_square (vec3 (Finite 0) (Finite 0) (Finite 0))) = Some main_tex \<and>
   format (main_square (vec3 (Finite 0) (Finite 0) (Finite 0))) = GL_RGBA \<and>
   mesh (main_square (vec3 (Finite 0) (Finite 0) (Finite 0))) = Some main_quad \<and>
   vertex_array main_quad = Some \<lparr>va_vbo = Some \<lparr>vbo = 1\<rparr>, vao = 1\<rparr> \<and>
   index_buffer main_quad = Some \<lparr>ibo = 2, count = 6\<rparr> \<and>
   map_option snd
     (render_loop driver_ok main_window (Suc 1)
        (main_shaderProgram, main_square (vec3 (Finite 0) (Finite 0) (Finite 0)))) =
     Some
      [[glViewport 0 0 800 600, glClear, glUseProgram 3,
        glGetUniformLocation 3 ''u_Projection'', glUniformMatrix4fv 1 projectionMatrix,
        call_glm_translate (glm_mat4 (Finite 1)) (vec3 (Finite 400) (Finite 300) (Finite 0)),
        call_glm_scale (glm_mat4 (Finite 1)) (vec3 (Finite 200) (Finite 100) (Finite 0)),
        call_mat4_times
          (glm_translate (glm_mat4 (Finite 1)) (vec3 (Finite 400) (Finite 300) (Finite 0)))
          (glm_scale (glm_mat4 (Finite 1)) (vec3 (Finite 200) (Finite 100) (Finite 0))),
        glActiveTexture GL_TEXTURE0, glBindTexture 1,
        glGetUniformLocation 3 ''u_texture'', glUniform1i 2 0,
        glGetUniformLocation 3 ''u_Transform'',
        glUniformMatrix4fv 0
          (mat4 (vec4 (Finite 200) (Finite 0) (Finite 0) (Finite 0))
                (vec4 (Finite 0) (Finite 100) (Finite 0) (Finite 0))
                (vec4 (Finite 0) (Finite 0) (Finite 0) (Finite 0))
                (vec4 (Finite 400) (Finite 300) (Finite 0) (Finite 1))),
        glBindVertexArray 1, glBindBuffer GL_ELEMENT_ARRAY_BUFFER 2, glDrawElements 6,
        glfwSwapBuffers],
       [glViewport 0 0 800 600, glClear, glUseProgram 3,
        glUniformMatrix4fv 1 projectionMatrix,
        call_glm_translate (glm_mat4 (Finite 1)) (vec3 (Finite 400) (Finite 300) (Finite 0)),
        call_glm_scale (glm_mat4 (Finite 1)) (vec3 (Finite 200) (Finite 100) (Finite 0)),
        call_mat4_times
          (glm_translate (glm_mat4 (Finite 1)) (vec3 (Finite 400) (Finite 300) (Finite 0)))
          (glm_scale (glm_mat4 (Finite 1)) (vec3 (Finite 200) (Finite 100) (Finite 0))),
        glActiveTexture GL_TEXTURE0, glBindTexture 1,
        glUniform1i 2 0,
        glUniformMatrix4fv 0
          (mat4 (vec4 (Finite 200) (Finite 0) (Finite 0) (Finite 0))
                (vec4 (Finite 0) (Finite 100) (Finite 0) (Finite 0))
                (vec4 (Finite 0) (Finite 0) (Finite 0) (Finite 0))
                (vec4 (Finite 400) (Finite 300) (Finite 0) (Finite 1))),
        glBindVertexArray 1, glBindBuffer GL_ELEMENT_ARRAY_BUFFER 2, glDrawElements 6,
        glfwSwapBuffers]]"
proof -
  let ?sq = "main_square (vec3 (Finite 0) (Finite 0) (Finite 0))"
  let ?va = "\<lparr>va_vbo = Some \<lparr>vbo = 1\<rparr>, vao = 1\<rparr>"
  let ?ib = "\<lparr>ibo = 2, count = 6\<rparr>"
  define loop where "loop = map_option snd
     (render_loop driver_ok main_window (Suc 1) (main_shaderProgram, ?sq))"
  have h: "texture_y ?sq = Some main_tex" "format ?sq = GL_RGBA" "mesh ?sq = Some main_quad"
    "vertex_array main_quad = Some ?va" "index_buffer main_quad = Some ?ib"
    by (simp_all add: main_square_def main_quad_def)
  have sc: "scale ?sq = vec2 (Finite 200) (Finite 100)" by (simp add: main_square_def)
  have q: "location_query driver_ok main_shaderProgram ''u_Projection''
             = [glGetUniformLocation 3 ''u_Projection'']"
    "location_query driver_ok main_shaderProgram ''u_texture''
             = [glGetUniformLocation 3 ''u_texture'']"
    "location_query driver_ok main_shaderProgram ''u_Transform''
             = [glGetUniformLocation 3 ''u_Transform'']"
    using C7_frame_order_amended [where gl = driver_ok and prog = main_shaderProgram]
    by (simp_all add: main_shaderProgram_def)
  have l: "location_of driver_ok main_shaderProgram ''u_Projection'' = 1"
    "location_of driver_ok main_shaderProgram ''u_texture'' = 2"
    "location_of driver_ok main_shaderProgram ''u_Transform'' = 0"
    using C7_frame_order_amended [where gl = driver_ok and prog = main_shaderProgram]
    by (simp_all add: main_shaderProgram_def driver_ok_def)
  have v: "shaderProgram main_shaderProgram = 3" "textureId main_tex = 1"
    "vao ?va = 1" "ibo ?ib = 2" "get_count ?ib = 6"
    by (simp_all add: main_shaderProgram_def main_tex_def get_count_def)
  from C7_frame_order_amended [where gl = driver_ok and w = main_window
      and prog = main_shaderProgram and square = ?sq and ty = main_tex and m = main_quad
      and va = ?va and ib = ?ib and n = 1] h
  have "loop = Some
      [[glViewport 0 0 800 600, glClear, glUseProgram 3,
        glGetUniformLocation 3 ''u_Projection'', glUniformMatrix4fv 1 projectionMatrix,
        call_glm_translate (glm_mat4 (Finite 1)) (vec3 (Finite 400) (Finite 300) (Finite 0)),
        call_glm_scale (glm_mat4 (Finite 1)) (vec3 (Finite 200) (Finite 100) (Finite 0)),
        call_mat4_times
          (glm_translate (glm_mat4 (Finite 1)) (vec3 (Finite 400) (Finite 300) (Finite 0)))
          (glm_scale (glm_mat4 (Finite 1)) (vec3 (Finite 200) (Finite 100) (Finite 0))),
        glActiveTexture GL_TEXTURE0, glBindTexture 1,
        glGetUniformLocation 3 ''u_texture'', glUniform1i 2 0,
        glGetUniformLocation 3 ''u_Transform'',
        glUniformMatrix4fv 0
          (mat4 (vec4 (Finite 200) (Finite 0) (Finite 0) (Finite 0))
                (vec4 (Finite 0) (Finite 100) (Finite 0) (Finite 0))
                (vec4 (Finite 0) (Finite 0) (Finite 0) (Finite 0))
                (vec4 (Finite 400) (Finite 300) (Finite 0) (Finite 1))),
        glBindVertexArray 1, glBindBuffer GL_ELEMENT_ARRAY_BUFFER 2, glDrawElements 6,
        glfwSwapBuffers],
       [glViewport 0 0 800 600, glClear, glUseProgram 3,
        glUniformMatrix4fv 1 projectionMatrix,
        call_glm_translate (glm_mat4 (Finite 1)) (vec3 (Finite 400) (Finite 300) (Finite 0)),
        call_glm_scale (glm_mat4 (Finite 1)) (vec3 (Finite 200) (Finite 100) (Finite 0)),
        call_mat4_times
          (glm_translate (glm_mat4 (Finite 1)) (vec3 (Finite 400) (Finite 300) (Finite 0)))
          (glm_scale (glm_mat4 (Finite 1)) (vec3 (Finite 200) (Finite 100) (Finite 0))),
        glActiveTexture GL_TEXTURE0, glBindTexture 1,
        glUniform1i 2 0,
        glUniformMatrix4fv 0
          (mat4 (vec4 (Finite 200) (Finite 0) (Finite 0) (Finite 0))
                (vec4 (Finite 0) (Finite 100) (Finite 0) (Finite 0))
                (vec4 (Finite 0) (Finite 0) (Finite 0) (Finite 0))
                (vec4 (Finite 400) (Finite 300) (Finite 0) (Finite 1))),
        glBindVertexArray 1, glBindBuffer GL_ELEMENT_ARRAY_BUFFER 2, glDrawElements 6,
        glfwSwapBuffers]]"
    unfolding Let_def loop_def [symmetric] main_center sc vec2.sel main_transform q l v
    by (simp add: main_window_width_def main_window_height_def)
  with h show ?thesis
    unfolding loop_def by (simp only: simp_thms)
qed

text \<open>
  Claim C7 as stated fails on the first frame of \<^verbatim>\<open>main\<close>: after the textures are bound,
  uniforms are set again before the draw call.
\<close>

theorem C7_frame_order_counterexample:
  "map_option (steps \<circ> snd)
     (frame driver_ok main_window
        (main_shaderProgram, main_square (vec3 (Finite 0) (Finite 0) (Finite 0))))
     = Some [Clear, UseShader, SetUniforms, BindTextures, SetUniforms, DrawCall, SwapBuffers] \<and>
   map_option (steps \<circ> snd)
     (frame driver_ok main_window
        (main_shaderProgram, main_square (vec3 (Finite 0) (Finite 0) (Finite 0))))
     \<noteq> Some [Clear, UseShader, SetUniforms, BindTextures, DrawCall, SwapBuffers]"
proof -
  let ?st = "(main_shaderProgram, main_square (vec3 (Finite 0) (Finite 0) (Finite 0)))"
  have "drawable (snd ?st)" by (simp add: main_square_drawable)
  from frame_returns [OF this] obtain st' calls where
    f: "frame driver_ok main_window ?st = Some (st', calls)"
    by (metis prod.collapse)
  from frame_steps(1) [OF f] show ?thesis
    by (simp add: f)
qed

section \<open>The float model\<close>

text \<open>
  \<open>ilog2\<close> is the binary exponent; a rational whose quotient by its unit in the last place
  is an integer, and that is not beyond the largest float, is a float; so is every integer
  of magnitude at most \<open>2\<^sup>2\<^sup>4\<close>.
\<close>

lemma pow2_pos: "0 < pow2 k"
  by (simp add: pow2_def)

lemma pow2_minus_nat: "pow2 (- int k) = 1 / 2 ^ k"
  by (auto simp: pow2_def)

lemma round_even_of_int: "round_even (of_int k) = k"
  by (simp add: round_even_def)

lemma round_f32_exact:
  assumes "q \<noteq> 0" and "of_int k * pow2 (max (ilog2 \<bar>q\<bar> - 23) (- 149)) = q"
    and "\<bar>q\<bar> \<le> max_f32"
  shows "round_f32 q = Finite q"
proof -
  let ?u = "max (ilog2 \<bar>q\<bar> - 23) (- 149)"
  have "q / pow2 ?u = of_int k"
    using assms(2) pow2_pos [of ?u] by (simp add: field_simps)
  then have "of_int (round_even (q / pow2 ?u)) * pow2 ?u = q"
    using assms(2) by (simp add: round_even_of_int)
  then show ?thesis
    using assms(1,3) by (simp add: round_f32_def Let_def)
qed

lemma ilog2_of_int: "0 < n \<Longrightarrow> ilog2 (of_int n) = bitlen n - 1"
  by (simp add: ilog2_def)

lemma max_f32_ge: "2 ^ 24 \<le> max_f32"
  by (simp add: max_f32_def)

lemma round_f32_of_int:
  assumes "\<bar>n\<bar> \<le> 2 ^ 24"
  shows "round_f32 (of_int n) = Finite (of_int n)"
proof (cases "n = 0")
  case True
  then show ?thesis by (simp add: round_f32_def)
next
  case False
  define m where "m = \<bar>n\<bar>"
  define q :: rat where "q = of_int n"
  have m: "0 < m" using False by (simp add: m_def)
  have mle: "m \<le> 2 ^ 24" using assms by (simp add: m_def)
  have absq: "\<bar>q\<bar> = of_int m" by (simp add: q_def m_def)
  have il: "ilog2 \<bar>q\<bar> = bitlen m - 1"
    unfolding absq using m by (rule ilog2_of_int)
  have b25: "bitlen m \<le> 25"
    using mle by (simp add: bitlen_le_iff_power)
  have b1: "1 \<le> bitlen m"
    using m bitlen_eq_zero_iff [of m] bitlen_nonneg [of m] by linarith
  have u: "max (ilog2 \<bar>q\<bar> - 23) (- 149) = bitlen m - 24" using il b1 by simp
  have "\<exists>k. of_int k * pow2 (bitlen m - 24) = q"
  proof (cases "bitlen m = 25")
    case True
    then have "2 ^ 24 \<le> m" using bitlen_bounds [OF m] by simp
    with mle have "m = 2 ^ 24" by simp
    then have "n = 2 ^ 24 \<or> n = - (2 ^ 24)" unfolding m_def by linarith
    then have "of_int (n div 2) * (2::rat) = of_int n"
      by (elim disjE) simp_all
    moreover have "pow2 (bitlen m - 24) = 2" using True by (simp add: pow2_def)
    ultimately have "of_int (n div 2) * pow2 (bitlen m - 24) = q" by (simp add: q_def)
    then show ?thesis by (rule exI)
  next
    case False
    define j where "j = nat (24 - bitlen m)"
    from False b25 have e: "bitlen m - 24 = - int j" by (simp add: j_def)
    have "of_int (n * 2 ^ j) * pow2 (bitlen m - 24) = q"
      unfolding e pow2_minus_nat q_def by simp
    then show ?thesis by (rule exI)
  qed
  then obtain k where k: "of_int k * pow2 (max (ilog2 \<bar>q\<bar> - 23) (- 149)) = q"
    unfolding u by blast
  have "(of_int m :: rat) \<le> of_int (2 ^ 24)"
    using mle by (simp only: of_int_le_iff)
  then have "\<bar>q\<bar> \<le> 2 ^ 24" by (simp add: absq)
  then have "\<bar>q\<bar> \<le> max_f32" using max_f32_ge by (rule order_trans)
  moreover have "q \<noteq> 0" using False by (simp add: q_def)
  ultimately have "round_f32 q = Finite q" using k by (intro round_f32_exact)
  then show ?thesis by (simp add: q_def)
qed


lemma pow2_nat: "pow2 (int k) = 2 ^ k"
  by (simp add: pow2_def)

lemma ilog2_bounds:
  assumes "0 < x"
  shows "pow2 (ilog2 x) \<le> x \<and> x < pow2 (ilog2 x + 1)"
proof (cases "1 \<le> x")
  case True
  define n where "n = \<lfloor>x\<rfloor>"
  have n: "0 < n" using True by (simp add: n_def)
  define e where "e = nat (bitlen n - 1)"
  have b1: "1 \<le> bitlen n"
    using n bitlen_eq_zero_iff [of n] bitlen_nonneg [of n] by linarith
  then have be: "bitlen n - 1 = int e" and be1: "nat (bitlen n) = Suc e"
    by (simp_all add: e_def)
  from bitlen_bounds [OF n] have lo: "2 ^ e \<le> n" and hi: "n < 2 ^ Suc e"
    by (simp_all add: e_def [symmetric] be1)
  have il: "ilog2 x = int e" using True by (simp add: ilog2_def n_def [symmetric] be)
  have "(of_int (2 ^ e) :: rat) \<le> of_int n" using lo by (simp only: of_int_le_iff)
  also have "\<dots> \<le> x" by (simp add: n_def)
  finally have l: "pow2 (int e) \<le> x" by (simp add: pow2_nat)
  have "n + 1 \<le> 2 ^ Suc e" using hi by simp
  then have "(of_int (n + 1) :: rat) \<le> of_int (2 ^ Suc e)" by (simp only: of_int_le_iff)
  moreover have "x < of_int (n + 1)" unfolding n_def by linarith
  ultimately have "x < of_int (2 ^ Suc e)" by simp
  then have h: "x < pow2 (int e + 1)"
    using pow2_nat [of "Suc e"] by (simp add: add.commute)
  from l h show ?thesis by (simp add: il)
next
  case False
  define c where "c = \<lceil>1 / x\<rceil>"
  have y: "1 < 1 / x" using False assms by simp
  then have c2: "2 \<le> c" unfolding c_def by linarith
  then have c1: "0 < c - 1" by simp
  have b1: "1 \<le> bitlen (c - 1)"
    using c1 bitlen_eq_zero_iff [of "c - 1"] bitlen_nonneg [of "c - 1"] by linarith
  define d where "d = nat (bitlen (c - 1) - 1)"
  have bb: "bitlen (c - 1) = int (Suc d)" and bm: "nat (bitlen (c - 1)) = Suc d"
    using b1 by (simp_all add: d_def)
  from bitlen_bounds [OF c1] have lo: "2 ^ d \<le> c - 1" and hi: "c - 1 < 2 ^ Suc d"
    by (simp_all add: d_def [symmetric] bm)
  have il: "ilog2 x = - int (Suc d)"
    using False by (simp add: ilog2_def c_def [symmetric] bb)
  have "c \<le> 2 ^ Suc d" using hi by simp
  then have "(of_int c :: rat) \<le> of_int (2 ^ Suc d)" by (simp only: of_int_le_iff)
  moreover have "1 / x \<le> of_int c" by (simp add: c_def)
  ultimately have "1 / x \<le> 2 ^ Suc d" by simp
  then have "1 \<le> 2 ^ Suc d * x" using assms by (simp add: field_simps)
  then have "1 / 2 ^ Suc d \<le> x" by (simp add: field_simps)
  then have l: "pow2 (- int (Suc d)) \<le> x" by (simp only: pow2_minus_nat)
  have "(of_int (2 ^ d) :: rat) \<le> of_int (c - 1)" using lo by (simp only: of_int_le_iff)
  moreover have "of_int (c - 1) < 1 / x" unfolding c_def by linarith
  ultimately have "2 ^ d < 1 / x" by simp
  then have "2 ^ d * x < 1" using assms by (simp add: field_simps)
  then have "x < 1 / 2 ^ d" by (simp add: field_simps)
  then have "x < pow2 (- int d)" by (simp only: pow2_minus_nat)
  moreover have "- int (Suc d) + 1 = - int d" by simp
  ultimately have h: "x < pow2 (- int (Suc d) + 1)" by (simp only:)
  from l h show ?thesis by (simp add: il)
qed


lemma fround_of_int: "fround (Finite (of_int n)) = Finite (of_int n)"
proof -
  have "\<lfloor>rat_of_int n + 1 / 2\<rfloor> = n" and "\<lfloor>- rat_of_int n + 1 / 2\<rfloor> = - n"
    by linarith+
  then show ?thesis by simp
qed

section \<open>Top-left positions\<close>

lemma fsub_of_exact_sum:
  assumes "is_f32 (Finite a)"
  shows "fsub (Finite (a + h)) (Finite h) = Finite a"
  using assms by (simp add: fsub_def)

lemma top_left_roundtrip_exact:
  assumes "is_f32 (Finite a)" and "is_f32 (Finite b)"
    and "fdiv (vec2_x (scale r)) (Finite 2) = Finite hx"
    and "fdiv (vec2_y (scale r)) (Finite 2) = Finite hy"
    and "fadd (Finite a) (Finite hx) = Finite (a + hx)"
    and "fadd (Finite b) (Finite hy) = Finite (b + hy)"
  shows "get_position_TopLeft (set_position_TopLeft r (vec3 (Finite a) (Finite b) z)) =
           make_pair_uint32 (fround (Finite a)) (fround (Finite b))"
proof -
  let ?p = "vec3 (Finite a) (Finite b) z"
  have pos: "position (set_position_TopLeft r ?p) = vec3 (Finite (a + hx)) (Finite (b + hy)) z"
    and sc: "scale (set_position_TopLeft r ?p) = scale r"
    using assms(3-6) by (simp_all add: set_position_TopLeft_def)
  have x: "fsub (Finite (a + hx)) (Finite hx) = Finite a"
    and y: "fsub (Finite (b + hy)) (Finite hy) = Finite b"
    using assms(1,2) by (simp_all only: fsub_of_exact_sum)
  show ?thesis
    unfolding get_position_TopLeft_def Let_def pos sc assms(3,4)
    by (simp only: vec3.sel x y)
qed

text \<open>
  The floats from \<open>2\<^sup>3\<^sup>1\<close> up to \<open>2\<^sup>3\<^sup>2\<close> are multiples of 256, so a non-negative float
  below \<open>2\<^sup>3\<^sup>2\<close> rounds to an integer below \<open>2\<^sup>3\<^sup>2\<close>.
\<close>

lemma is_f32_round_below:
  assumes "is_f32 (Finite a)" and "0 \<le> a" and "a < 2 ^ 32"
  shows "\<lfloor>a + 1 / 2\<rfloor> < 2 ^ 32"
proof (cases "a < 2 ^ 31")
  case True
  then have "a + 1 / 2 < of_int (2 ^ 32)" by simp
  then show ?thesis by (simp only: floor_less_iff)
next
  case False
  define n where "n = \<lfloor>a\<rfloor>"
  have "of_int (2 ^ 31) \<le> a" using False by simp
  then have lo: "2 ^ 31 \<le> n" unfolding n_def by (simp only: le_floor_iff)
  have "a < of_int (2 ^ 32)" using assms(3) by simp
  then have hi: "n < 2 ^ 32" unfolding n_def by (simp only: floor_less_iff)
  have "bitlen n \<le> 32" using hi by (simp add: bitlen_le_iff_power)
  moreover have "32 \<le> bitlen n" using lo by (simp add: bitlen_ge_iff_power)
  ultimately have b: "bitlen n = 32" by simp
  have a1: "1 \<le> a" using False by simp
  then have abs: "\<bar>a\<bar> = a" and a0: "a \<noteq> 0" by simp_all
  have il: "ilog2 \<bar>a\<bar> = 31"
    unfolding abs using a1 b by (simp add: ilog2_def n_def [symmetric])
  have u: "max (ilog2 \<bar>a\<bar> - 23) (- 149) = 8" by (simp add: il)
  have p: "pow2 8 = 256" by (simp add: pow2_def)
  define k where "k = round_even (a / 256)"
  from assms(1) have "round_f32 a = Finite a" by simp
  then have "of_int k * 256 = a"
    using a0 by (simp add: round_f32_def Let_def u p k_def split: if_splits)
  then have ak: "a = of_int (k * 256)" by simp
  from assms(3) have "rat_of_int (k * 256) < of_int (2 ^ 32)" unfolding ak by simp
  then have "k * 256 < 2 ^ 32" by (simp only: of_int_less_iff)
  then have "k * 256 \<le> 2 ^ 32 - 256" by simp
  then have "rat_of_int (k * 256) \<le> of_int (2 ^ 32 - 256)" by (simp only: of_int_le_iff)
  then have "a + 1 / 2 < of_int (2 ^ 32)" unfolding ak by simp
  then show ?thesis by (simp only: floor_less_iff)
qed

text \<open>
  \<^verbatim>\<open>std::round\<close> of non-negative floats converted to the \<^verbatim>\<open>uint32_t\<close> pair: the rounded
  values when both are below \<open>2\<^sup>3\<^sup>2\<close>, undefined otherwise.
\<close>

lemma make_pair_uint32_fround:
  assumes "is_f32 (Finite a)" and "is_f32 (Finite b)" and "0 \<le> a" and "0 \<le> b"
  shows "make_pair_uint32 (fround (Finite a)) (fround (Finite b)) =
           (if a < 2 ^ 32 \<and> b < 2 ^ 32
            then Some (word_of_int \<lfloor>a + 1 / 2\<rfloor>, word_of_int \<lfloor>b + 1 / 2\<rfloor>) else None)"
proof -
  have conv: "to_uint32 (fround (Finite c)) =
      (if c < 2 ^ 32 then Some (word_of_int \<lfloor>c + 1 / 2\<rfloor>) else None)"
    if c: "is_f32 (Finite c)" "0 \<le> c" for c
  proof -
    have nn: "0 \<le> \<lfloor>c + 1 / 2\<rfloor>" using c(2) by simp
    have f: "fround (Finite c) = Finite (of_int \<lfloor>c + 1 / 2\<rfloor>)" using c(2) by simp
    show ?thesis
    proof (cases "c < 2 ^ 32")
      case True
      from is_f32_round_below [OF c True] nn show ?thesis
        unfolding f using True by (simp add: Let_def)
    next
      case False
      then have "of_int (2 ^ 32) \<le> c + 1 / 2" by simp
      then have "2 ^ 32 \<le> \<lfloor>c + 1 / 2\<rfloor>" by (simp only: le_floor_iff)
      then show ?thesis
        unfolding f using False nn by (simp add: Let_def)
    qed
  qed
  show ?thesis
    unfolding make_pair_uint32_def conv [OF assms(1,3)] conv [OF assms(2,4)] by simp
qed

lemma top_left_roundtrip_pixels:
  assumes "scale r = vec2 (Finite (of_int (2 * kx))) (Finite (of_int (2 * ky)))"
    and "0 \<le> i" and "i \<le> 2 ^ 23" and "0 \<le> j" and "j \<le> 2 ^ 23"
    and "\<bar>kx\<bar> \<le> 2 ^ 23" and "\<bar>ky\<bar> \<le> 2 ^ 23"
  shows "get_position_TopLeft
           (set_position_TopLeft r (vec3 (Finite (of_int i)) (Finite (of_int j)) z)) =
         Some (word_of_int i, word_of_int j)"
proof -
  have i: "is_f32 (Finite (of_int i))" and j: "is_f32 (Finite (of_int j))"
    using assms(2-5) by (simp_all add: round_f32_of_int)
  have "rat_of_int (2 * kx) / 2 = of_int kx" and "rat_of_int (2 * ky) / 2 = of_int ky"
    by simp_all
  then have hx: "fdiv (vec2_x (scale r)) (Finite 2) = Finite (of_int kx)"
    and hy: "fdiv (vec2_y (scale r)) (Finite 2) = Finite (of_int ky)"
    using assms(6,7) by (simp_all add: assms(1) round_f32_of_int)
  have p: "(2::int) ^ 24 = 2 ^ 23 + 2 ^ 23" by simp
  have "\<bar>i + kx\<bar> \<le> 2 ^ 24" and "\<bar>j + ky\<bar> \<le> 2 ^ 24"
    using assms(2-7) unfolding p by linarith+
  then have "round_f32 (of_int (i + kx)) = Finite (of_int (i + kx))"
    and "round_f32 (of_int (j + ky)) = Finite (of_int (j + ky))"
    by (simp_all only: round_f32_of_int)
  then have sx: "fadd (Finite (of_int i)) (Finite (of_int kx)) = Finite (of_int i + of_int kx)"
    and sy: "fadd (Finite (of_int j)) (Finite (of_int ky)) = Finite (of_int j + of_int ky)"
    by simp_all
  have "to_uint32 (Finite (of_int i)) = Some (word_of_int i)"
    and "to_uint32 (Finite (of_int j)) = Some (word_of_int j)"
    using assms(2-5) by (simp_all add: Let_def)
  then have "make_pair_uint32 (Finite (of_int i)) (Finite (of_int j)) =
      Some (word_of_int i, word_of_int j)"
    by (simp add: make_pair_uint32_def)
  with top_left_roundtrip_exact [OF i j hx hy sx sy] show ?thesis
    by (simp only: fround_of_int)
qed

text \<open>
  Claim C10, as amended. \<^verbatim>\<open>set_position(PositionTopLeft, p)\<close> stores the float sums
  \<open>p.x + s.x / 2\<close> and \<open>p.y + s.y / 2\<close> and \<open>p.z\<close>, and leaves the scale as it is;
  \<^verbatim>\<open>get_position(PositionTopLeft)\<close> returns the rounded float differences of the stored
  position and \<open>s / 2\<close>, converted to \<^verbatim>\<open>uint32_t\<close>. When \<open>p.x\<close> and \<open>p.y\<close> are non-negative
  floats and both float sums are exact (they are not rounded),
  \<^verbatim>\<open>get_position(PositionTopLeft)\<close> after \<^verbatim>\<open>set_position(PositionTopLeft, p)\<close> returns the
  pair \<open>(round(p.x), round(p.y))\<close> if both coordinates are below \<open>2\<^sup>3\<^sup>2\<close>; if one is not,
  its conversion to \<^verbatim>\<open>uint32_t\<close> is undefined. The sums are exact, and the pair returned
  is \<open>(p.x, p.y)\<close>, when \<open>p.x\<close> and \<open>p.y\<close> are non-negative integers up to \<open>2\<^sup>2\<^sup>3\<close> and
  \<open>s.x / 2\<close> and \<open>s.y / 2\<close> are integers of magnitude at most \<open>2\<^sup>2\<^sup>3\<close>.
\<close>

theorem C10_top_left_roundtrip_amended:
  "position (set_position_TopLeft r p) =
     vec3 (fadd (vec3_x p) (fdiv (vec2_x (scale r)) (Finite 2)))
          (fadd (vec3_y p) (fdiv (vec2_y (scale r)) (Finite 2))) (vec3_z p) \<and>
   scale (set_position_TopLeft r p) = scale r \<and>
   get_position_TopLeft r =
     make_pair_uint32
       (fround (fsub (vec3_x (position r)) (fdiv (vec2_x (scale r)) (Finite 2))))
       (fround (fsub (vec3_y (position r)) (fdiv (vec2_y (scale r)) (Finite 2)))) \<and>
   (p = vec3 (Finite a) (Finite b) z \<and> is_f32 (Finite a) \<and> is_f32 (Finite b) \<and>
    0 \<le> a \<and> 0 \<le> b \<and>
    fdiv (vec2_x (scale r)) (Finite 2) = Finite hx \<and>
    fdiv (vec2_y (scale r)) (Finite 2) = Finite hy \<and>
    fadd (Finite a) (Finite hx) = Finite (a + hx) \<and>
    fadd (Finite b) (Finite hy) = Finite (b + hy) \<longrightarrow>
      get_position_TopLeft (set_position_TopLeft r p) =
        (if a < 2 ^ 32 \<and> b < 2 ^ 32
         then Some (word_of_int \<lfloor>a + 1 / 2\<rfloor>, word_of_int \<lfloor>b + 1 / 2\<rfloor>) else None)) \<and>
   (scale r = vec2 (Finite (of_int (2 * kx))) (Finite (of_int (2 * ky))) \<and>
    0 \<le> i \<and> i \<le> 2 ^ 23 \<and> 0 \<le> j \<and> j \<le> 2 ^ 23 \<and> \<bar>kx\<bar> \<le> 2 ^ 23 \<and> \<bar>ky\<bar> \<le> 2 ^ 23 \<longrightarrow>
      get_position_TopLeft
        (set_position_TopLeft r (vec3 (Finite (of_int i)) (Finite (of_int j)) z)) =
      Some (word_of_int i, word_of_int j))"
proof (intro conjI impI)
  show "position (set_position_TopLeft r p) =
     vec3 (fadd (vec3_x p) (fdiv (vec2_x (scale r)) (Finite 2)))
          (fadd (vec3_y p) (fdiv (vec2_y (scale r)) (Finite 2))) (vec3_z p)"
    by (simp add: set_position_TopLeft_def)
  show "scale (set_position_TopLeft r p) = scale r"
    by (simp add: set_position_TopLeft_def)
  show "get_position_TopLeft r =
     make_pair_uint32
       (fround (fsub (vec3_x (position r)) (fdiv (vec2_x (scale r)) (Finite 2))))
       (fround (fsub (vec3_y (position r)) (fdiv (vec2_y (scale r)) (Finite 2))))"
    by (simp add: get_position_TopLeft_def Let_def)
next
  assume h: "p = vec3 (Finite a) (Finite b) z \<and> is_f32 (Finite a) \<and> is_f32 (Finite b) \<and>
    0 \<le> a \<and> 0 \<le> b \<and>
    fdiv (vec2_x (scale r)) (Finite 2) = Finite hx \<and>
    fdiv (vec2_y (scale r)) (Finite 2) = Finite hy \<and>
    fadd (Finite a) (Finite hx) = Finite (a + hx) \<and>
    fadd (Finite b) (Finite hy) = Finite (b + hy)"
  then have "get_position_TopLeft (set_position_TopLeft r p) =
        make_pair_uint32 (fround (Finite a)) (fround (Finite b))"
    using top_left_roundtrip_exact [of a b r hx hy z] by blast
  moreover from h have "make_pair_uint32 (fround (Finite a)) (fround (Finite b)) =
        (if a < 2 ^ 32 \<and> b < 2 ^ 32
         then Some (word_of_int \<lfloor>a + 1 / 2\<rfloor>, word_of_int \<lfloor>b + 1 / 2\<rfloor>) else None)"
    using make_pair_uint32_fround [of a b] by blast
  ultimately show "get_position_TopLeft (set_position_TopLeft r p) =
        (if a < 2 ^ 32 \<and> b < 2 ^ 32
         then Some (word_of_int \<lfloor>a + 1 / 2\<rfloor>, word_of_int \<lfloor>b + 1 / 2\<rfloor>) else None)"
    by (rule trans)
next
  assume "scale r = vec2 (Finite (of_int (2 * kx))) (Finite (of_int (2 * ky))) \<and>
    0 \<le> i \<and> i \<le> 2 ^ 23 \<and> 0 \<le> j \<and> j \<le> 2 ^ 23 \<and> \<bar>kx\<bar> \<le> 2 ^ 23 \<and> \<bar>ky\<bar> \<le> 2 ^ 23"
  then show "get_position_TopLeft
        (set_position_TopLeft r (vec3 (Finite (of_int i)) (Finite (of_int j)) z)) =
      Some (word_of_int i, word_of_int j)"
    using top_left_roundtrip_pixels [of r kx ky i j z] by blast
qed

text \<open>
  The theorem at the renderable of \<^verbatim>\<open>main\<close>, of scale \<open>(200, 100)\<close>: the top-left
  position \<open>(300.5, 250)\<close> is read back as \<open>(301, 250)\<close>, the pixel \<open>(300, 250)\<close> as itself.
\<close>

theorem C10_top_left_roundtrip_amended_witness:
  "is_f32 (Finite (601 / 2)) \<and> is_f32 (Finite 250) \<and>
   (0::rat) \<le> 601 / 2 \<and> (0::rat) \<le> 250 \<and>
   fdiv (vec2_x (scale (main_square (vec3 (Finite 0) (Finite 0) (Finite 0))))) (Finite 2)
     = Finite 100 \<and>
   fdiv (vec2_y (scale (main_square (vec3 (Finite 0) (Finite 0) (Finite 0))))) (Finite 2)
     = Finite 50 \<and>
   fadd (Finite (601 / 2)) (Finite 100) = Finite (601 / 2 + 100) \<and>
   fadd (Finite 250) (Finite 50) = Finite (250 + 50) \<and>
   get_position_TopLeft
     (set_position_TopLeft (main_square (vec3 (Finite 0) (Finite 0) (Finite 0)))
        (vec3 (Finite (601 / 2)) (Finite 250) (Finite 0)))
     = Some (301, 250) \<and>
   scale (main_square (vec3 (Finite 0) (Finite 0) (Finite 0)))
     = vec2 (Finite (of_int (2 * 100))) (Finite (of_int (2 * 50))) \<and>
   get_position_TopLeft
     (set_position_TopLeft (main_square (vec3 (Finite 0) (Finite 0) (Finite 0)))
        (vec3 (Finite (of_int 300)) (Finite (of_int 250)) (Finite 0)))
     = Some (300, 250)"
proof -
  let ?r = "main_square (vec3 (Finite 0) (Finite 0) (Finite 0))"
  have h1: "is_f32 (Finite (601 / 2))" and h2: "is_f32 (Finite 250)"
    by code_simp+
  have h3: "fdiv (vec2_x (scale ?r)) (Finite 2) = Finite 100"
    and h4: "fdiv (vec2_y (scale ?r)) (Finite 2) = Finite 50"
    by code_simp+
  have h5: "fadd (Finite (601 / 2)) (Finite 100) = Finite (601 / 2 + 100)"
    and h6: "fadd (Finite 250) (Finite 50) = Finite (250 + 50)"
    by code_simp+
  have n: "(0::rat) \<le> 601 / 2" "(0::rat) \<le> 250" "(601 / 2 :: rat) < 2 ^ 32"
    "(250::rat) < 2 ^ 32"
    by simp_all
  have fl: "\<lfloor>(601 / 2 :: rat) + 1 / 2\<rfloor> = 301" "\<lfloor>(250 :: rat) + 1 / 2\<rfloor> = 250"
    by linarith+
  have sc: "scale ?r = vec2 (Finite (of_int (2 * 100))) (Finite (of_int (2 * 50)))"
    by (simp add: main_square_def)
  note inst = C10_top_left_roundtrip_amended [where r = ?r
      and p = "vec3 (Finite (601 / 2)) (Finite 250) (Finite 0)" and a = "601 / 2" and b = 250
      and z = "Finite 0" and hx = 100 and hy = 50 and kx = 100 and ky = 50
      and i = 300 and j = 250]
  from inst h1 h2 h3 h4 h5 h6 n(1,2)
  have "get_position_TopLeft
          (set_position_TopLeft ?r (vec3 (Finite (601 / 2)) (Finite 250) (Finite 0)))
          = (if (601 / 2 :: rat) < 2 ^ 32 \<and> (250 :: rat) < 2 ^ 32
             then Some (word_of_int \<lfloor>(601 / 2 :: rat) + 1 / 2\<rfloor>,
                        word_of_int \<lfloor>(250 :: rat) + 1 / 2\<rfloor>) else None)"
    by blast
  then have v1: "get_position_TopLeft
          (set_position_TopLeft ?r (vec3 (Finite (601 / 2)) (Finite 250) (Finite 0)))
          = Some (301, 250)"
    unfolding fl using n(3,4) by simp
  have b: "(0::int) \<le> 300 \<and> (300::int) \<le> 2 ^ 23 \<and> (0::int) \<le> 250 \<and> (250::int) \<le> 2 ^ 23 \<and>
      \<bar>100::int\<bar> \<le> 2 ^ 23 \<and> \<bar>50::int\<bar> \<le> 2 ^ 23"
    by simp
  from inst sc b
  have "get_position_TopLeft
          (set_position_TopLeft ?r (vec3 (Finite (of_int 300)) (Finite (of_int 250)) (Finite 0)))
          = Some (word_of_int 300, word_of_int 250)"
    by blast
  then have v2: "get_position_TopLeft
          (set_position_TopLeft ?r (vec3 (Finite (of_int 300)) (Finite (of_int 250)) (Finite 0)))
          = Some (300, 250)"
    by simp
  from v1 v2 h1 h2 h3 h4 h5 h6 n(1,2) sc show ?thesis by (simp only: simp_thms)
qed

text \<open>
  Claim C10 as stated fails for the renderable of \<^verbatim>\<open>main\<close> with scale \<open>(2, 2)\<close> and
  \<open>p.x = 0.5 - 2\<^sup>-\<^sup>2\<^sup>5\<close>, the largest float below one half: the float sum \<open>p.x + 1\<close> rounds to
  \<open>1.5\<close>, so the top-left position read back is \<open>(1, 0)\<close>, while \<open>(round(p.x), round(p.y))\<close>
  is \<open>(0, 0)\<close>.
\<close>

theorem C10_top_left_roundtrip_counterexample:
  "is_f32 (Finite (16777215 / 33554432)) \<and>
   scale (set_scale (main_square (vec3 (Finite 0) (Finite 0) (Finite 0)))
            (vec2 (Finite 2) (Finite 2))) = vec2 (Finite 2) (Finite 2) \<and>
   position
     (set_position_TopLeft
        (set_scale (main_square (vec3 (Finite 0) (Finite 0) (Finite 0)))
           (vec2 (Finite 2) (Finite 2)))
        (vec3 (Finite (16777215 / 33554432)) (Finite 0) (Finite 0)))
     = vec3 (Finite (3 / 2)) (Finite 1) (Finite 0) \<and>
   get_position_TopLeft
     (set_position_TopLeft
        (set_scale (main_square (vec3 (Finite 0) (Finite 0) (Finite 0)))
           (vec2 (Finite 2) (Finite 2)))
        (vec3 (Finite (16777215 / 33554432)) (Finite 0) (Finite 0)))
     = Some (1, 0) \<and>
   make_pair_uint32 (fround (Finite (16777215 / 33554432))) (fround (Finite 0)) = Some (0, 0) \<and>
   get_position_TopLeft
     (set_position_TopLeft
        (set_scale (main_square (vec3 (Finite 0) (Finite 0) (Finite 0)))
           (vec2 (Finite 2) (Finite 2)))
        (vec3 (Finite (16777215 / 33554432)) (Finite 0) (Finite 0)))
     \<noteq> make_pair_uint32 (fround (Finite (16777215 / 33554432))) (fround (Finite 0))"
  by code_simp

end
